theory Spec2Isabelle
  imports
    Complex_Main
    "HOL-Library.Word"
    "HOL-Library.Char_ord"
    "HOL-Library.List_Lexorder"
    "HOL-Library.Product_Lexorder"
begin

section \<open>The decision loop of the trading agent (agent/internal/runtime/runtime.go)\<close>

text \<open>
  Conventions of the embedding.
  \<^item> A Go \<open>string\<close> is a byte sequence: \<open>string\<close> here. The functions of package
    \<open>strings\<close> are modelled on ASCII text: \<open>TrimSpace\<close> strips the six ASCII white-space
    bytes, \<open>ToLower\<close> and \<open>ToUpper\<close> change the 26 ASCII letters. Go compares strings
    byte by byte, which is the lexicographic order of \<open>char list\<close>.
  \<^item> \<open>uint64\<close> is \<open>64 word\<close>: \<open>+\<close>, \<open>-\<close>, \<open>*\<close> wrap around, \<open>div\<close> and \<open><\<close> are unsigned.
  \<^item> \<open>int\<close> (hints and counters) is \<open>int\<close>: the code only compares these values and
    multiplies a value between 1 and 60, so no operation on them can overflow.
  \<^item> \<open>float64\<close>: the floats of an action, an offer or a price come out of
    \<open>encoding/json\<close>, which rejects NaN and the infinities, so each of them is a finite
    number, a \<open>real\<close>. What the preflight and the liquidity check compute from them (a
    product, a sum, the running difference, the conversion of a \<open>uint64\<close>) is rounded as
    the machine rounds it, see "Arithmetic of float64"; such a result may be an infinity
    and has the type \<open>float64\<close>. The reward score, a sum of a few multiples of 0.01, is
    kept an exact sum.
  \<^item> A Go \<open>map\<close> is an association list with distinct keys, read with a default of zero
    as Go reads a missing key; the order of the list stands for the order in which
    \<open>range\<close> happens to visit the map.
\<close>

type_synonym u64 = "64 word"

subsection \<open>Package strings\<close>

definition isSpace :: "char \<Rightarrow> bool" where
  "isSpace c =
     (c = CHR 0x09 \<or> c = CHR 0x0A \<or> c = CHR 0x0B \<or> c = CHR 0x0C \<or> c = CHR 0x0D \<or> c = CHR '' '')"

definition toLowerC :: "char \<Rightarrow> char" where
  "toLowerC c =
     (if CHR ''A'' \<le> c \<and> c \<le> CHR ''Z''
      then (case c of Char b0 b1 b2 b3 b4 b5 b6 b7 \<Rightarrow> Char b0 b1 b2 b3 b4 True b6 b7)
      else c)"

definition toUpperC :: "char \<Rightarrow> char" where
  "toUpperC c =
     (if CHR ''a'' \<le> c \<and> c \<le> CHR ''z''
      then (case c of Char b0 b1 b2 b3 b4 b5 b6 b7 \<Rightarrow> Char b0 b1 b2 b3 b4 False b6 b7)
      else c)"

definition ToLower :: "string \<Rightarrow> string" where
  "ToLower s = map toLowerC s"

definition ToUpper :: "string \<Rightarrow> string" where
  "ToUpper s = map toUpperC s"

definition TrimSpace :: "string \<Rightarrow> string" where
  "TrimSpace s = rev (dropWhile isSpace (rev (dropWhile isSpace s)))"

definition HasPrefix :: "string \<Rightarrow> string \<Rightarrow> bool" where
  "HasPrefix s p = (take (length p) s = p)"

fun Contains :: "string \<Rightarrow> string \<Rightarrow> bool" where
  "Contains [] sub = (sub = [])"
| "Contains (c # cs) sub = (HasPrefix (c # cs) sub \<or> Contains cs sub)"






text \<open>
  \<open>ReplaceAll\<close> replaces the occurrences of \<open>old\<close> from the left, without overlap. The
  code calls it with a non-empty \<open>old\<close> only; for an empty one the string is returned
  as it is here.
\<close>

function ReplaceAll :: "string \<Rightarrow> string \<Rightarrow> string \<Rightarrow> string" where
  "ReplaceAll [] old new = []"
| "ReplaceAll (c # cs) old new =
     (if old \<noteq> [] \<and> HasPrefix (c # cs) old
      then new @ ReplaceAll (drop (length old) (c # cs)) old new
      else c # ReplaceAll cs old new)"
  by pat_completeness auto
termination
  by (relation "measure (\<lambda>(s, old, new). length s)") auto

text \<open>\<open>Trim\<close> strips the bytes of the cutset from both ends.\<close>

definition Trim :: "string \<Rightarrow> string \<Rightarrow> string" where
  "Trim s cutset =
     rev (dropWhile (\<lambda>c. c \<in> set cutset) (rev (dropWhile (\<lambda>c. c \<in> set cutset) s)))"



text \<open>
  Replacing a string by a shorter one shortens the text wherever it occurs; the loop of
  \<open>normalizeAction\<close> that collapses runs of underscores terminates for that reason.
\<close>

lemma HasPrefix_length: "HasPrefix s p \<Longrightarrow> length p \<le> length s"
proof -
  assume "HasPrefix s p"
  then have "length (take (length p) s) = length p" by (simp only: HasPrefix_def)
  then show ?thesis by simp
qed

lemma ReplaceAll_Cons_hit:
  "old \<noteq> [] \<Longrightarrow> HasPrefix (c # cs) old \<Longrightarrow>
   ReplaceAll (c # cs) old new = new @ ReplaceAll (drop (length old) (c # cs)) old new"
  by (simp only: ReplaceAll.simps simp_thms if_True)

lemma ReplaceAll_Cons_miss:
  "\<not> (old \<noteq> [] \<and> HasPrefix (c # cs) old) \<Longrightarrow>
   ReplaceAll (c # cs) old new = c # ReplaceAll cs old new"
  by (simp only: ReplaceAll.simps if_False)

lemma ReplaceAll_length_le:
  "length new \<le> length old \<Longrightarrow> length (ReplaceAll s old new) \<le> length s"
proof (induction s old new rule: ReplaceAll.induct)
  case (1 old new)
  then show ?case by simp
next
  case (2 c cs old new)
  show ?case
  proof (cases "old \<noteq> [] \<and> HasPrefix (c # cs) old")
    case True
    then have le: "length old \<le> length (c # cs)" by (simp only: HasPrefix_length)
    from 2(1) [OF True 2(3)]
    have "length (ReplaceAll (drop (length old) (c # cs)) old new)
        \<le> length (c # cs) - length old" by (simp only: length_drop)
    moreover have "ReplaceAll (c # cs) old new = new @ ReplaceAll (drop (length old) (c # cs)) old new"
      using True ReplaceAll_Cons_hit by blast
    ultimately show ?thesis using le 2(3) by (simp only: length_append)
  next
    case False
    from 2(2) [OF False 2(3)] have "length (ReplaceAll cs old new) \<le> length cs" .
    then show ?thesis by (simp only: ReplaceAll_Cons_miss [OF False] list.size)
  qed
qed

lemma ReplaceAll_length_less:
  "length new < length old \<Longrightarrow> Contains s old \<Longrightarrow> length (ReplaceAll s old new) < length s"
proof (induction s old new rule: ReplaceAll.induct)
  case (1 old new)
  then show ?case by simp
next
  case (2 c cs old new)
  have ne: "old \<noteq> []" using 2(3) by auto
  show ?case
  proof (cases "HasPrefix (c # cs) old")
    case True
    then have le: "length old \<le> length (c # cs)" by (simp only: HasPrefix_length)
    have "length (ReplaceAll (drop (length old) (c # cs)) old new)
        \<le> length (drop (length old) (c # cs))"
      using 2(3) by (intro ReplaceAll_length_le) simp
    then have "length (ReplaceAll (drop (length old) (c # cs)) old new)
        \<le> length (c # cs) - length old" by (simp only: length_drop)
    moreover have "ReplaceAll (c # cs) old new = new @ ReplaceAll (drop (length old) (c # cs)) old new"
      using True ne ReplaceAll_Cons_hit by blast
    ultimately show ?thesis using le 2(3) by (simp only: length_append)
  next
    case False
    then have miss: "\<not> (old \<noteq> [] \<and> HasPrefix (c # cs) old)" by simp
    from False 2(4) have "Contains cs old" by simp
    with 2(2) [OF miss 2(3)] have "length (ReplaceAll cs old new) < length cs" .
    then show ?thesis by (simp only: ReplaceAll_Cons_miss [OF miss] list.size)
  qed
qed

function collapseUnderscores :: "string \<Rightarrow> string" where
  "collapseUnderscores clean =
     (if Contains clean ''__'' then collapseUnderscores (ReplaceAll clean ''__'' ''_'')
      else clean)"
  by pat_completeness auto
termination
proof (relation "measure length")
  show "wf (measure length)" by simp
next
  fix clean :: string
  assume "Contains clean ''__''"
  then have "length (ReplaceAll clean ''__'' ''_'') < length clean"
    by (intro ReplaceAll_length_less) simp_all
  then show "(ReplaceAll clean ''__'' ''_'', clean) \<in> measure length" by simp
qed

declare collapseUnderscores.simps [simp del]

subsection \<open>Data model\<close>

text \<open>The action the model proposes, decoded from its JSON reply.\<close>

record Action =
  Action :: string
  AssetSymbol :: string
  Category :: string
  PriceAGC :: real
  Qty :: real
  Side :: string
  Reason :: string
  NextCheckSec :: int

text \<open>
  One remembered decision. The fields of the other structs carry a letter in front,
  since two records of one theory cannot share a field name.
\<close>

record memoryDecision =
  mAction :: string
  mAssetSymbol :: string
  mSide :: string
  mPriceAGC :: real
  mQty :: real
  mStatus :: string
  mError :: string
  mReason :: string
  mCreatedAt :: string
  mReward :: real

text \<open>The gateway's records (agent/internal/indexer/client.go).\<close>

record Offer =
  oOfferID :: string
  oAgentID :: string
  oCategory :: string
  oPriceAGC :: real
  oQty :: real
  oStatus :: string
  oAsset :: string
  oCreatedAt :: string

record RFQ =
  qRFQID :: string
  qAgentID :: string
  qCategory :: string
  qMaxPriceAGC :: real
  qQty :: real
  qStatus :: string
  qAsset :: string
  qCreatedAt :: string

record Decision =
  dDecisionID :: string
  dAgentID :: string
  dAction :: string
  dAssetSymbol :: string
  dPriceAGC :: real
  dQty :: real
  dSide :: string
  dReason :: string
  dStatus :: string
  dError :: string
  dCreatedAt :: string

text \<open>
  The gateway client, as far as the runner's state depends on it: the answer of
  \<open>GetAgentHistory\<close> for an agent, an error message or the decisions of the history.
  A runner without a client has \<open>None\<close> in the field \<open>Indexer\<close> (Go's \<open>nil\<close>).
\<close>

record IndexerClient =
  GetAgentHistory :: "string \<Rightarrow> string + Decision list"


text \<open>
  The runner's state between cycles. The record has the fields that the decision logic
  reads or writes; the ticker, the model client, the user address, the profile, the
  strategy prompt, the time of the last configuration sync and the cycle counter are
  left out. The model client is a parameter of the decision engine below.
\<close>

record Runner =
  AgentID :: string
  Indexer :: "IndexerClient option"
  lastBalances :: "(string \<times> u64) list"
  lastTokenPrice :: "(string \<times> real) list"
  lastOffers :: "Offer list"
  lastRFQs :: "RFQ list"
  lastOpenOffers :: int
  lastOpenRFQs :: int
  lastOffersByAS :: "(string \<times> int) list"
  allowedTokens :: "string list"
  decisionMemory :: "memoryDecision list"
  memorySeeded :: bool

text \<open>Reading a Go map: a missing key reads as the zero value.\<close>

definition mapGet :: "(string \<times> 'v::zero) list \<Rightarrow> string \<Rightarrow> 'v" where
  "mapGet m k = (case map_of m k of None \<Rightarrow> 0 | Some v \<Rightarrow> v)"

subsection \<open>Constants\<close>

definition maxOpenOffersPerAgent :: int where "maxOpenOffersPerAgent = 5"
definition maxOpenOffersPerAsset :: int where "maxOpenOffersPerAsset = 3"
definition maxOpenRFQsPerAgent :: int where "maxOpenRFQsPerAgent = 3"
definition decisionMemoryLimit :: nat where "decisionMemoryLimit = 12"
definition decisionSeedLimit :: nat where "decisionSeedLimit = 8"
definition defaultWaitSec :: int where "defaultWaitSec = 6"
definition minWaitSec :: int where "minWaitSec = 1"
definition maxWaitSec :: int where "maxWaitSec = 60"

text \<open>\<open>time.Second\<close>: a \<open>time.Duration\<close> counts nanoseconds.\<close>

definition Second :: int where "Second = 1000000000"

subsection \<open>Wait scheduling\<close>

text \<open>
  \<open>normalizeWaitDuration\<close> assigns to \<open>sec\<close> three times in turn; each \<open>let\<close> is one of
  the three \<open>if\<close> statements.
\<close>

definition normalizeWaitDuration :: "int \<Rightarrow> int" where
  "normalizeWaitDuration sec =
     (let sec1 = (if sec \<le> 0 then defaultWaitSec else sec);
          sec2 = (if sec1 < minWaitSec then minWaitSec else sec1);
          sec3 = (if sec2 > maxWaitSec then maxWaitSec else sec2)
      in sec3 * Second)"

subsection \<open>Strict validation\<close>

text \<open>
  \<open>validateStrictAction\<close> returns the rejection message, and the empty string for an
  action it accepts. The \<open>switch\<close> on the kind has an empty first case for the four
  canonical kinds; its \<open>default\<close> case returns one of three messages.
\<close>

definition validateStrictAction :: "Action \<Rightarrow> string" where
  "validateStrictAction action =
     (let act = ToLower (TrimSpace (Action action)) in
      if \<not> (act = ''post_offer'' \<or> act = ''create_rfq'' \<or> act = ''trade'' \<or> act = ''wait'')
      then (if act = '''' then ''missing action''
            else if act = ''noop'' then ''noop is not allowed''
            else ''invalid action: '' @ Action action)
      else if act = ''wait''
      then (if NextCheckSec action < 0 then ''next_check_sec must be >= 0'' else '''')
      else
        (let asset = ToUpper (TrimSpace (AssetSymbol action)) in
         if asset = '''' then ''asset_symbol is required''
         else if asset = ''AGC'' then ''asset_symbol must not be AGC''
         else if Qty action \<le> 0 then ''qty must be > 0''
         else if act = ''trade'' \<and>
                 (let side = ToLower (TrimSpace (Side action))
                  in side \<noteq> ''buy'' \<and> side \<noteq> ''sell'')
         then ''trade side must be buy or sell''
         else if (act = ''post_offer'' \<or> act = ''create_rfq'') \<and> PriceAGC action \<le> 0
         then ''price_agc must be > 0''
         else ''''))"

subsection \<open>Reward scoring\<close>

text \<open>
  \<open>scoreDecisionOutcome\<close>: the \<open>switch\<close> on the status sets the base score, then four
  \<open>if\<close> statements in turn subtract a penalty; a message that is empty after trimming
  returns the base score at once.
\<close>

definition scoreDecisionOutcome :: "string \<Rightarrow> string \<Rightarrow> real" where
  "scoreDecisionOutcome status errMsg =
     (let st = ToLower (TrimSpace status);
          score0 = (if st = ''executed'' then 0.8
                    else if st = ''wait'' then 0.2
                    else if st = ''blocked'' then - 0.3
                    else if st = ''rejected'' then - 0.7
                    else - 0.1);
          errLower = ToLower (TrimSpace errMsg)
      in if errLower = '''' then score0
         else
           (let score1 = (if Contains errLower ''decision_error'' \<or> Contains errLower ''parse error''
                          then score0 - 0.5 else score0);
                score2 = (if Contains errLower ''asset_symbol is required'' \<or>
                             Contains errLower ''invalid action''
                          then score1 - 0.4 else score1);
                score3 = (if Contains errLower ''insufficient'' then score2 - 0.2 else score2);
                score4 = (if Contains errLower ''no matching'' \<or> Contains errLower ''liquidity''
                          then score3 - 0.1 else score3)
            in score4))"

text \<open>
  The scoring rule in the words of the specification: a base for the status, and a
  table of error categories, each with the phrases that reveal it and its penalty; the
  score is the base plus the penalties of the categories present in the message.
\<close>

definition specStatusBase :: "string \<Rightarrow> real" where
  "specStatusBase st =
     (if st = ''executed'' then 0.8
      else if st = ''wait'' then 0.2
      else if st = ''blocked'' then - 0.3
      else if st = ''rejected'' then - 0.7
      else - 0.1)"

definition specErrorCategories :: "(string list \<times> real) list" where
  "specErrorCategories =
     [([''decision_error'', ''parse error''], - 0.5),
      ([''asset_symbol is required'', ''invalid action''], - 0.4),
      ([''insufficient''], - 0.2),
      ([''no matching'', ''liquidity''], - 0.1)]"

definition specRewardScore :: "string \<Rightarrow> string \<Rightarrow> real" where
  "specRewardScore status errMsg =
     specStatusBase (ToLower (TrimSpace status)) +
     sum_list (map snd
       (filter (\<lambda>(phrases, penalty). list_ex (Contains (ToLower (TrimSpace errMsg))) phrases)
          specErrorCategories))"

subsection \<open>Decision memory\<close>

text \<open>
  \<open>pushDecisionMemory\<close> updates the runner in place; here it returns the new runner.
  \<open>now\<close> is what \<open>time.Now().UTC().Format(time.RFC3339)\<close> returns at the call.
\<close>

definition pushDecisionMemory :: "string \<Rightarrow> memoryDecision \<Rightarrow> Runner \<Rightarrow> Runner" where
  "pushDecisionMemory now entry r =
     (if TrimSpace (mAction entry) = '''' then r
      else
        (let entry1 = (if TrimSpace (mStatus entry) = ''''
                       then entry\<lparr>mStatus := ''logged''\<rparr> else entry);
             entry2 = (if TrimSpace (mCreatedAt entry1) = ''''
                       then entry1\<lparr>mCreatedAt := now\<rparr> else entry1);
             mem = decisionMemory r @ [entry2]
         in if length mem > decisionMemoryLimit
            then r\<lparr>decisionMemory := drop (length mem - decisionMemoryLimit) mem\<rparr>
            else r\<lparr>decisionMemory := mem\<rparr>))"

text \<open>
  \<open>appendDecisionMemory\<close> builds the entry for the outcome of a cycle and pushes it;
  both the time stamp of the entry and the one \<open>pushDecisionMemory\<close> may read are \<open>now\<close>.
\<close>

definition appendDecisionMemory :: "string \<Rightarrow> Action \<Rightarrow> string \<Rightarrow> string \<Rightarrow> Runner \<Rightarrow> Runner" where
  "appendDecisionMemory now action status errMsg r =
     pushDecisionMemory now
       \<lparr>mAction = ToLower (TrimSpace (Action action)),
        mAssetSymbol = ToUpper (TrimSpace (AssetSymbol action)),
        mSide = ToLower (TrimSpace (Side action)),
        mPriceAGC = PriceAGC action,
        mQty = Qty action,
        mStatus = ToLower (TrimSpace status),
        mError = TrimSpace errMsg,
        mReason = TrimSpace (Reason action),
        mCreatedAt = now,
        mReward = scoreDecisionOutcome status errMsg\<rparr> r"

text \<open>\<open>NewRunner\<close>: the state a runner starts with, its two maps empty.\<close>

definition NewRunner :: "string \<Rightarrow> IndexerClient option \<Rightarrow> Runner" where
  "NewRunner agentID idx =
     \<lparr>AgentID = agentID, Indexer = idx, lastBalances = [], lastTokenPrice = [],
      lastOffers = [], lastRFQs = [], lastOpenOffers = 0, lastOpenRFQs = 0,
      lastOffersByAS = [], allowedTokens = [], decisionMemory = [], memorySeeded = False\<rparr>"

subsection \<open>Arithmetic of float64\<close>

text \<open>
  A finite \<open>float64\<close> is a real number \<open>m * 2 ^ q\<close> with a whole \<open>m\<close> of at most 53 bits
  and \<open>q\<close> at least -1074. The result of an operation is the exact result rounded to
  the nearest such number, to the one with the even \<open>m\<close> when two are equally near,
  and to an infinity from \<open>2 ^ 1024\<close> on. \<open>bitLength\<close> counts the binary digits of a
  whole number, \<open>binaryExponent x\<close> is the \<open>e\<close> with \<open>2 ^ e \<le> \<bar>x\<bar> < 2 ^ (e + 1)\<close>,
  and \<open>roundFinite\<close> rounds without the upper bound.
\<close>

function bitLength :: "int \<Rightarrow> int" where
  "bitLength n = (if n \<le> 0 then 0 else 1 + bitLength (n div 2))"
  by pat_completeness auto
termination
  by (relation "measure nat") auto

declare bitLength.simps [simp del]

definition twoPow :: "int \<Rightarrow> real" where
  "twoPow q = (if 0 \<le> q then 2 ^ nat q else 1 / 2 ^ nat (- q))"

definition binaryExponent :: "real \<Rightarrow> int" where
  "binaryExponent x =
     (if 1 \<le> \<bar>x\<bar> then bitLength \<lfloor>\<bar>x\<bar>\<rfloor> - 1
      else - bitLength (\<lceil>1 / \<bar>x\<bar>\<rceil> - 1))"

definition roundHalfEven :: "real \<Rightarrow> int" where
  "roundHalfEven z =
     (let f = \<lfloor>z\<rfloor>; d = z - of_int f
      in if d < 1 / 2 then f else if 1 / 2 < d then f + 1 else if even f then f else f + 1)"

definition roundFinite :: "real \<Rightarrow> real" where
  "roundFinite x =
     (if x = 0 then 0
      else (let q = max (binaryExponent x) (- 1022) - 52
            in of_int (roundHalfEven (x / twoPow q)) * twoPow q))"

text \<open>
  The values of an expression of type \<open>float64\<close>. The operands below are finite
  numbers out of JSON or results of these operations with one finite operand, so no
  operation meets two infinities and NaN does not arise.
\<close>

datatype float64 = Finite real | PosInf | NegInf

definition roundToFloat64 :: "real \<Rightarrow> float64" where
  "roundToFloat64 x =
     (let y = roundFinite x
      in if 2 ^ 1024 \<le> y then PosInf else if y \<le> - (2 ^ 1024) then NegInf else Finite y)"

text \<open>\<open>x * y\<close> and \<open>x + y\<close> of two finite numbers, \<open>a - y\<close> of a value and a finite number.\<close>

definition fmul :: "real \<Rightarrow> real \<Rightarrow> float64" where
  "fmul x y = roundToFloat64 (x * y)"

definition fadd :: "real \<Rightarrow> real \<Rightarrow> float64" where
  "fadd x y = roundToFloat64 (x + y)"

fun fsub :: "float64 \<Rightarrow> real \<Rightarrow> float64" where
  "fsub (Finite x) y = roundToFloat64 (x - y)"
| "fsub PosInf y = PosInf"
| "fsub NegInf y = NegInf"

text \<open>\<open>a <= b\<close> and \<open>a < b\<close>.\<close>

fun fle :: "float64 \<Rightarrow> float64 \<Rightarrow> bool" where
  "fle NegInf b = True"
| "fle a PosInf = True"
| "fle (Finite x) (Finite y) = (x \<le> y)"
| "fle a b = False"

definition flt :: "float64 \<Rightarrow> float64 \<Rightarrow> bool" where
  "flt a b = (\<not> fle b a)"

text \<open>\<open>float64(n)\<close> of a \<open>uint64\<close>: always finite.\<close>

definition float64OfUint64 :: "u64 \<Rightarrow> real" where
  "float64OfUint64 n = roundFinite (of_nat (unat n))"

text \<open>
  \<open>math.Round\<close>: the nearest integer, halves away from zero; an infinity stays.
\<close>

definition roundAway :: "real \<Rightarrow> real" where
  "roundAway x = (if 0 \<le> x then of_int \<lfloor>x + 1 / 2\<rfloor> else - of_int \<lfloor>- x + 1 / 2\<rfloor>)"

fun mathRound :: "float64 \<Rightarrow> float64" where
  "mathRound (Finite x) = Finite (roundAway x)"
| "mathRound PosInf = PosInf"
| "mathRound NegInf = NegInf"

text \<open>
  The conversion \<open>uint64(f)\<close> of a float: the fraction is dropped. For a value that no
  \<open>uint64\<close> represents Go leaves the result to the implementation; \<open>conv\<close> is that
  result, a parameter of the model, so that what is proved holds on every platform.
\<close>

fun uint64OfFloat :: "(float64 \<Rightarrow> u64) \<Rightarrow> float64 \<Rightarrow> u64" where
  "uint64OfFloat conv (Finite x) =
     (if - 1 < x \<and> x < 2 ^ 64 then (if x < 0 then 0 else word_of_int \<lfloor>x\<rfloor>)
      else conv (Finite x))"
| "uint64OfFloat conv PosInf = conv PosInf"
| "uint64OfFloat conv NegInf = conv NegInf"

subsection \<open>Liquidity matching\<close>

definition isOpenStatus :: "string \<Rightarrow> bool" where
  "isOpenStatus status = (let s = ToLower (TrimSpace status) in s = '''' \<or> s = ''open'')"

text \<open>The constant \<open>eps = 1e-9\<close>, which takes the type \<open>float64\<close> where it is used.\<close>

definition eps :: real where
  "eps = roundFinite (1 / 1000000000)"

text \<open>
  The two loops of \<open>hasTradeLiquidity\<close>, over the offers for a buy and over the RFQs
  for a sell. Each \<open>continue\<close> is a recursive call with \<open>remaining\<close> unchanged.
\<close>

fun offerLoop :: "string \<Rightarrow> string \<Rightarrow> real \<Rightarrow> float64 \<Rightarrow> Offer list \<Rightarrow> bool" where
  "offerLoop self asset price remaining [] = False"
| "offerLoop self asset price remaining (offer # rest) =
     (if oAgentID offer = self then offerLoop self asset price remaining rest
      else if \<not> isOpenStatus (oStatus offer) then offerLoop self asset price remaining rest
      else if ToUpper (TrimSpace (oAsset offer)) \<noteq> asset
      then offerLoop self asset price remaining rest
      else if flt (fadd price eps) (Finite (oPriceAGC offer))
      then offerLoop self asset price remaining rest
      else if fle (fsub remaining (oQty offer)) (Finite eps) then True
      else offerLoop self asset price (fsub remaining (oQty offer)) rest)"

fun rfqLoop :: "string \<Rightarrow> string \<Rightarrow> real \<Rightarrow> float64 \<Rightarrow> RFQ list \<Rightarrow> bool" where
  "rfqLoop self asset price remaining [] = False"
| "rfqLoop self asset price remaining (rfq # rest) =
     (if qAgentID rfq = self then rfqLoop self asset price remaining rest
      else if \<not> isOpenStatus (qStatus rfq) then rfqLoop self asset price remaining rest
      else if ToUpper (TrimSpace (qAsset rfq)) \<noteq> asset
      then rfqLoop self asset price remaining rest
      else if flt (fadd (qMaxPriceAGC rfq) eps) (Finite price)
      then rfqLoop self asset price remaining rest
      else if fle (fsub remaining (qQty rfq)) (Finite eps) then True
      else rfqLoop self asset price (fsub remaining (qQty rfq)) rest)"

definition hasTradeLiquidity :: "Runner \<Rightarrow> string \<Rightarrow> string \<Rightarrow> real \<Rightarrow> u64 \<Rightarrow> bool" where
  "hasTradeLiquidity r side0 asset0 price qty =
     (if qty = 0 then False
      else
        (let asset = ToUpper (TrimSpace asset0);
             side = ToLower (TrimSpace side0)
         in if asset = '''' \<or> (side \<noteq> ''buy'' \<and> side \<noteq> ''sell'') then False
            else if side = ''buy''
            then offerLoop (AgentID r) asset price (Finite (float64OfUint64 qty)) (lastOffers r)
            else rfqLoop (AgentID r) asset price (Finite (float64OfUint64 qty)) (lastRFQs r)))"

subsection \<open>Risk preflight\<close>

text \<open>
  The four fee variables of the package. They are variables, not constants, so they are
  a parameter of the preflight; \<open>declaredFees\<close> has the values of their declarations.
\<close>

record Fees =
  offerFeeAGC :: u64
  rfqFeeAGC :: u64
  tradeFeeBps :: u64
  syntheticMintFeePerUnitAGC :: u64

definition declaredFees :: Fees where
  "declaredFees =
     \<lparr>offerFeeAGC = 0, rfqFeeAGC = 0, tradeFeeBps = 10, syntheticMintFeePerUnitAGC = 0\<rparr>"

definition calcTradeFee :: "Fees \<Rightarrow> u64 \<Rightarrow> u64" where
  "calcTradeFee fees notional =
     (if tradeFeeBps fees = 0 \<or> notional = 0 then 0
      else (notional * tradeFeeBps fees) div 10000)"

text \<open>
  The three cases of the \<open>switch\<close> of \<open>preflight\<close>, one definition each, then
  \<open>preflight\<close> itself. The result is the pair of status and message; the pair of two
  empty strings lets the action proceed.
\<close>

definition preflightPostOffer ::
  "Fees \<Rightarrow> Runner \<Rightarrow> Action \<Rightarrow> string \<Rightarrow> u64 \<Rightarrow> string \<times> string" where
  "preflightPostOffer fees r action asset qty =
     (if lastOpenOffers r \<ge> maxOpenOffersPerAgent then (''blocked'', ''open offer limit reached'')
      else if mapGet (lastOffersByAS r) asset \<ge> maxOpenOffersPerAsset
      then (''blocked'', ''asset offer limit reached'')
      else if PriceAGC action \<le> 0 then (''blocked'', ''price must be positive'')
      else
        (let assetBal = mapGet (lastBalances r) asset;
             mintQty = (if assetBal < qty then qty - assetBal else 0);
             needAGC = offerFeeAGC fees + mintQty * syntheticMintFeePerUnitAGC fees
         in if mapGet (lastBalances r) ''AGC'' < needAGC
            then (''blocked'', ''insufficient AGC for offer fee/mint'')
            else ('''', '''')))"

definition preflightCreateRFQ ::
  "(float64 \<Rightarrow> u64) \<Rightarrow> Fees \<Rightarrow> Runner \<Rightarrow> Action \<Rightarrow> string \<Rightarrow> u64 \<Rightarrow> string \<times> string" where
  "preflightCreateRFQ conv fees r action asset qty =
     (if lastOpenRFQs r \<ge> maxOpenRFQsPerAgent then (''blocked'', ''open rfq limit reached'')
      else
        (let price = (if PriceAGC action \<le> 0 then mapGet (lastTokenPrice r) asset
                      else PriceAGC action)
         in if price \<le> 0 then (''blocked'', ''price unavailable'')
            else
              (let cost = uint64OfFloat conv (mathRound (fmul price (float64OfUint64 qty)))
               in if mapGet (lastBalances r) ''AGC'' < cost + rfqFeeAGC fees
                  then (''blocked'', ''insufficient AGC balance'')
                  else ('''', ''''))))"

definition preflightTrade ::
  "(float64 \<Rightarrow> u64) \<Rightarrow> Fees \<Rightarrow> Runner \<Rightarrow> Action \<Rightarrow> string \<Rightarrow> u64 \<Rightarrow> string \<times> string" where
  "preflightTrade conv fees r action asset qty =
     (let side = ToLower (TrimSpace (Side action)) in
      if side \<noteq> ''buy'' \<and> side \<noteq> ''sell'' then (''blocked'', ''side must be buy or sell'')
      else
        (let price = (if PriceAGC action \<le> 0 then mapGet (lastTokenPrice r) asset
                      else PriceAGC action)
         in if price \<le> 0 then (''blocked'', ''price unavailable'')
            else
              (let cost = uint64OfFloat conv (mathRound (fmul price (float64OfUint64 qty)));
                   fee = calcTradeFee fees cost
               in if side = ''sell''
                  then (if mapGet (lastBalances r) asset < qty
                        then (''blocked'', ''insufficient asset balance'')
                        else if mapGet (lastBalances r) ''AGC'' < fee
                        then (''blocked'', ''insufficient AGC for fee'')
                        else if \<not> hasTradeLiquidity r side asset price qty
                        then (''blocked'', ''no matching rfq liquidity'')
                        else ('''', ''''))
                  else if mapGet (lastBalances r) ''AGC'' < cost + fee
                  then (''blocked'', ''insufficient AGC balance'')
                  else if \<not> hasTradeLiquidity r side asset price qty
                  then (''blocked'', ''no matching offer liquidity'')
                  else ('''', ''''))))"

definition preflight ::
  "(float64 \<Rightarrow> u64) \<Rightarrow> Fees \<Rightarrow> Runner \<Rightarrow> Action \<Rightarrow> string \<times> string" where
  "preflight conv fees r action =
     (if lastBalances r = [] then (''blocked'', ''balances unavailable'')
      else
        (let asset = ToUpper (TrimSpace (AssetSymbol action));
             qty = uint64OfFloat conv (mathRound (Finite (Qty action)))
         in if qty = 0 then (''blocked'', ''qty must be positive'')
            else if asset = '''' then (''blocked'', ''asset symbol missing'')
            else if asset = ''AGC'' then (''blocked'', ''AGC is settlement asset'')
            else
              (let kind = ToLower (TrimSpace (Action action)) in
               if kind = ''post_offer'' then preflightPostOffer fees r action asset qty
               else if kind = ''create_rfq'' then preflightCreateRFQ conv fees r action asset qty
               else if kind = ''trade'' then preflightTrade conv fees r action asset qty
               else (''blocked'', ''invalid action''))))"






subsection \<open>Seeding the memory from the gateway's history\<close>

text \<open>
  \<open>sort.SliceStable\<close> of the standard library: a stable sort by a \<open>less\<close> function;
  an element goes in front of the first one that is not less than it.
\<close>

fun insertStable :: "('a \<Rightarrow> 'a \<Rightarrow> bool) \<Rightarrow> 'a \<Rightarrow> 'a list \<Rightarrow> 'a list" where
  "insertStable lt x [] = [x]"
| "insertStable lt x (y # ys) =
     (if lt y x then y # insertStable lt x ys else x # y # ys)"

definition SliceStable :: "('a \<Rightarrow> 'a \<Rightarrow> bool) \<Rightarrow> 'a list \<Rightarrow> 'a list" where
  "SliceStable lt xs = foldr (insertStable lt) xs []"

text \<open>The \<open>less\<close> function \<open>seedDecisionMemory\<close> sorts with.\<close>

definition decisionLess :: "Decision \<Rightarrow> Decision \<Rightarrow> bool" where
  "decisionLess x y =
     (let a = TrimSpace (dCreatedAt x); b = TrimSpace (dCreatedAt y)
      in if a = b then dDecisionID x < dDecisionID y else a < b)"

text \<open>The first loop: the decisions with a kind other than noop, in the order of the history.\<close>

fun keepLoop :: "Decision list \<Rightarrow> Decision list \<Rightarrow> Decision list" where
  "keepLoop decisions [] = decisions"
| "keepLoop decisions (item # rest) =
     (let action = ToLower (TrimSpace (dAction item))
      in if action = '''' \<or> action = ''noop'' then keepLoop decisions rest
         else keepLoop (decisions @ [item]) rest)"

definition memoryOfDecision :: "Decision \<Rightarrow> memoryDecision" where
  "memoryOfDecision item =
     \<lparr>mAction = ToLower (TrimSpace (dAction item)),
      mAssetSymbol = ToUpper (TrimSpace (dAssetSymbol item)),
      mSide = ToLower (TrimSpace (dSide item)),
      mPriceAGC = dPriceAGC item,
      mQty = dQty item,
      mStatus = ToLower (TrimSpace (dStatus item)),
      mError = TrimSpace (dError item),
      mReason = TrimSpace (dReason item),
      mCreatedAt = TrimSpace (dCreatedAt item),
      mReward = scoreDecisionOutcome (TrimSpace (dStatus item)) (TrimSpace (dError item))\<rparr>"

text \<open>
  The second loop pushes the decisions in turn; \<open>clock i\<close> is the time at the push of
  the decision at index \<open>i\<close>.
\<close>

fun seedLoop :: "(nat \<Rightarrow> string) \<Rightarrow> nat \<Rightarrow> Decision list \<Rightarrow> Runner \<Rightarrow> Runner" where
  "seedLoop clock i [] r = r"
| "seedLoop clock i (item # rest) r =
     seedLoop clock (Suc i) rest (pushDecisionMemory (clock i) (memoryOfDecision item) r)"

definition seedDecisionMemory :: "(nat \<Rightarrow> string) \<Rightarrow> Runner \<Rightarrow> Runner" where
  "seedDecisionMemory clock r =
     (case Indexer r of
        None \<Rightarrow> r
      | Some idx \<Rightarrow>
          if memorySeeded r \<or> TrimSpace (AgentID r) = '''' then r
          else
            (let r1 = r\<lparr>memorySeeded := True\<rparr> in
             case GetAgentHistory idx (AgentID r) of
               Inl err \<Rightarrow> r1
             | Inr history \<Rightarrow>
                 if length history = 0 then r1
                 else
                   (let decisions = SliceStable decisionLess (keepLoop [] history);
                        decisions1 = (if length decisions > decisionSeedLimit
                                      then drop (length decisions - decisionSeedLimit) decisions
                                      else decisions)
                    in seedLoop clock 0 decisions1 r1)))"

text \<open>
  The seeding rule in words: the last \<open>n\<close> elements of a list; the entry as a push
  stores it (status "logged" and the time of the push where the entry has none); the
  decisions that are kept; the sort key, time stamp first and decision id second.
\<close>

definition lastN :: "nat \<Rightarrow> 'a list \<Rightarrow> 'a list" where
  "lastN n xs = drop (length xs - n) xs"

definition storedEntry :: "string \<Rightarrow> memoryDecision \<Rightarrow> memoryDecision" where
  "storedEntry now entry =
     entry\<lparr>mStatus := (if TrimSpace (mStatus entry) = '''' then ''logged'' else mStatus entry),
           mCreatedAt := (if TrimSpace (mCreatedAt entry) = '''' then now else mCreatedAt entry)\<rparr>"

definition keepsDecision :: "Decision \<Rightarrow> bool" where
  "keepsDecision d =
     (ToLower (TrimSpace (dAction d)) \<noteq> '''' \<and> ToLower (TrimSpace (dAction d)) \<noteq> ''noop'')"

definition decisionKey :: "Decision \<Rightarrow> string \<times> string" where
  "decisionKey d = (TrimSpace (dCreatedAt d), dDecisionID d)"

subsection \<open>Parsing, normalising and repairing the model's answer\<close>


text \<open>
  \<open>normalizeAction\<close> rewrites the action in place; here it returns the new action. The
  \<open>switch\<close> maps the synonyms of a kind to the kind, and a kind it does not know to
  itself.
\<close>

definition normalizeKind :: "string \<Rightarrow> string" where
  "normalizeKind clean =
     (if clean \<in> set [''offer'', ''list'', ''postoffer'', ''post_offer'', ''make_offer'']
      then ''post_offer''
      else if clean \<in> set [''rfq'', ''create_rfq'', ''request_quote'', ''request_rfq'', ''create_r_fq'']
      then ''create_rfq''
      else if clean \<in> set [''trade'', ''buy'', ''sell''] then ''trade''
      else if clean \<in> set [''wait'', ''hold'', ''observe'', ''pause''] then ''wait''
      else if clean \<in> set [''noop'', ''no_op''] then ''noop''
      else clean)"

definition normalizeAction :: "Action \<Rightarrow> Action" where
  "normalizeAction action =
     (let clean0 = ToLower (TrimSpace (Action action));
          clean1 = ReplaceAll clean0 '' '' ''_'';
          clean2 = ReplaceAll clean1 ''-'' ''_'';
          clean3 = collapseUnderscores clean2;
          clean4 = Trim clean3 ''_'';
          side0 = (if clean4 = ''buy'' \<or> clean4 = ''sell'' then clean4 else Side action)
      in action
          \<lparr>Action := normalizeKind clean4,
           AssetSymbol := ToUpper (TrimSpace (AssetSymbol action)),
           Side := ToLower (TrimSpace side0),
           Category := TrimSpace (Category action),
           Reason := TrimSpace (Reason action),
           NextCheckSec := (if NextCheckSec action < 0 then 0 else NextCheckSec action)\<rparr>)"









subsection \<open>The strict decision engine\<close>






subsection \<open>Example data\<close>


text \<open>
  An open offer of another agent; a runner that holds some AGC and no X and sees the
  given offers; a buy and a post_offer of X; a remembered wait, and a runner whose
  memory is full.
\<close>

definition otherOffer :: "string \<Rightarrow> real \<Rightarrow> real \<Rightarrow> Offer" where
  "otherOffer asset price qty =
     \<lparr>oOfferID = ''o1'', oAgentID = ''other'', oCategory = '''', oPriceAGC = price, oQty = qty,
      oStatus = ''open'', oAsset = asset, oCreatedAt = ''''\<rparr>"

definition bookWithSettlement :: "u64 \<Rightarrow> Offer list \<Rightarrow> Runner" where
  "bookWithSettlement agc offers =
     (NewRunner ''me'' None)\<lparr>lastBalances := [(''AGC'', agc), (''X'', 0)], lastOffers := offers\<rparr>"

definition tradeBuy :: "real \<Rightarrow> real \<Rightarrow> Action" where
  "tradeBuy qty price =
     \<lparr>Action = ''trade'', AssetSymbol = ''X'', Category = '''', PriceAGC = price, Qty = qty,
      Side = ''buy'', Reason = '''', NextCheckSec = 0\<rparr>"

definition postOffer :: "real \<Rightarrow> real \<Rightarrow> Action" where
  "postOffer qty price =
     \<lparr>Action = ''post_offer'', AssetSymbol = ''X'', Category = '''', PriceAGC = price, Qty = qty,
      Side = '''', Reason = '''', NextCheckSec = 0\<rparr>"

definition waitEntry :: "string \<Rightarrow> memoryDecision" where
  "waitEntry t =
     \<lparr>mAction = ''wait'', mAssetSymbol = '''', mSide = '''', mPriceAGC = 0, mQty = 0,
      mStatus = ''wait'', mError = '''', mReason = ''model_wait'', mCreatedAt = t, mReward = 0.2\<rparr>"

definition fullMemory :: Runner where
  "fullMemory =
     (NewRunner ''me'' None)\<lparr>decisionMemory :=
        map waitEntry [''01'', ''02'', ''03'', ''04'', ''05'', ''06'', ''07'', ''08'', ''09'',
                       ''10'', ''11'', ''12'']\<rparr>"

text \<open>
  A history of twelve decisions, newest first: ten with a kind, two of these written at
  the same time, one noop and one without a kind.
\<close>

definition pastDecision :: "string \<Rightarrow> string \<Rightarrow> string \<Rightarrow> Decision" where
  "pastDecision ident kind created =
     \<lparr>dDecisionID = ident, dAgentID = ''me'', dAction = kind, dAssetSymbol = ''x'',
      dPriceAGC = 1, dQty = 1, dSide = ''buy'', dReason = '''', dStatus = ''executed'',
      dError = '''', dCreatedAt = created\<rparr>"

definition tenPastDecisions :: "Decision list" where
  "tenPastDecisions =
     [pastDecision ''d10'' ''trade'' ''2025-01-09'',
      pastDecision ''d09'' ''trade'' ''2025-01-09'',
      pastDecision ''d08'' ''trade'' ''2025-01-08'',
      pastDecision ''n01'' ''noop'' ''2025-01-08'',
      pastDecision ''d07'' ''trade'' ''2025-01-07'',
      pastDecision ''d06'' ''trade'' ''2025-01-06'',
      pastDecision ''d05'' ''trade'' ''2025-01-05'',
      pastDecision ''e01'' '' '' ''2025-01-05'',
      pastDecision ''d04'' ''trade'' ''2025-01-04'',
      pastDecision ''d03'' ''trade'' ''2025-01-03'',
      pastDecision ''d02'' ''trade'' ''2025-01-02'',
      pastDecision ''d01'' ''trade'' ''2025-01-01'']"

definition runnerWithHistory :: Runner where
  "runnerWithHistory =
     NewRunner ''me'' (Some \<lparr>GetAgentHistory = (\<lambda>agentID. Inr tenPastDecisions)\<rparr>)"








definition mintFeeOf :: "u64 \<Rightarrow> Fees" where
  "mintFeeOf perUnit = declaredFees\<lparr>syntheticMintFeePerUnitAGC := perUnit\<rparr>"

section \<open>Wait scheduling: the default replaces every non-positive hint\<close>

text \<open>
  C1 (as amended). For every integer hint the scheduled wait is 6 seconds when the hint
  is at most 0 and min(hint, 60) seconds otherwise, hence always between 1 and 60
  seconds: hint 0 gives 6 s, hint 200 gives 60 s, and hint -5 gives 6 s, because the
  default is applied before the range clamp and the lower clamp never fires. Raising a
  negative hint to 0 first, as \<open>normalizeAction\<close> does, changes nothing in the wait.
\<close>

theorem normalizeWaitDuration_default_then_clamp:
  "normalizeWaitDuration sec = (if sec \<le> 0 then 6 else min sec 60) * Second
   \<and> 1 * Second \<le> normalizeWaitDuration sec
   \<and> normalizeWaitDuration sec \<le> 60 * Second
   \<and> normalizeWaitDuration 0 = 6 * Second
   \<and> normalizeWaitDuration 200 = 60 * Second
   \<and> normalizeWaitDuration (- 5) = 6 * Second
   \<and> normalizeWaitDuration (NextCheckSec (normalizeAction a)) =
       normalizeWaitDuration (NextCheckSec a)"
  by (simp add: normalizeWaitDuration_def defaultWaitSec_def minWaitSec_def maxWaitSec_def
      Second_def normalizeAction_def Let_def)

text \<open>
  C1 as stated asks for 1 second at hint -5; the code schedules 6 seconds there.
\<close>

theorem normalizeWaitDuration_minus5_counterexample:
  "normalizeWaitDuration (- 5) = 6 * Second \<and> normalizeWaitDuration (- 5) \<noteq> 1 * Second"
  by (simp add: normalizeWaitDuration_def defaultWaitSec_def minWaitSec_def maxWaitSec_def
      Second_def Let_def)

section \<open>Strict validation: what an accepted action looks like\<close>

text \<open>
  C5. An action that \<open>validateStrictAction\<close> accepts has one of the four canonical kinds
  (after trimming and lower-casing, as the validation reads it). A wait action has a
  hint of at least 0, and that is all a wait action needs: every wait action with such
  a hint is accepted. Any other accepted action has a non-empty asset symbol that is
  not the settlement symbol AGC and a quantity above 0; an accepted trade has side buy
  or sell; an accepted post_offer or create_rfq has a price above 0.
\<close>

theorem validateStrictAction_accepted:
  "(validateStrictAction a = '''' \<longrightarrow>
      (ToLower (TrimSpace (Action a)) = ''post_offer'' \<or>
       ToLower (TrimSpace (Action a)) = ''create_rfq'' \<or>
       ToLower (TrimSpace (Action a)) = ''trade'' \<or>
       ToLower (TrimSpace (Action a)) = ''wait'') \<and>
      (ToLower (TrimSpace (Action a)) = ''wait'' \<longrightarrow> 0 \<le> NextCheckSec a) \<and>
      (ToLower (TrimSpace (Action a)) \<noteq> ''wait'' \<longrightarrow>
         ToUpper (TrimSpace (AssetSymbol a)) \<noteq> '''' \<and>
         ToUpper (TrimSpace (AssetSymbol a)) \<noteq> ''AGC'' \<and>
         0 < Qty a) \<and>
      (ToLower (TrimSpace (Action a)) = ''trade'' \<longrightarrow>
         ToLower (TrimSpace (Side a)) = ''buy'' \<or> ToLower (TrimSpace (Side a)) = ''sell'') \<and>
      (ToLower (TrimSpace (Action a)) = ''post_offer'' \<or>
       ToLower (TrimSpace (Action a)) = ''create_rfq'' \<longrightarrow> 0 < PriceAGC a))
   \<and> (ToLower (TrimSpace (Action a)) = ''wait'' \<and> 0 \<le> NextCheckSec a \<longrightarrow>
        validateStrictAction a = '''')"
  by (auto simp: validateStrictAction_def Let_def split: if_splits)

theorem validateStrictAction_accepted_witness:
  "validateStrictAction
     \<lparr>Action = '' Trade'', AssetSymbol = ''xyz'', Category = '''', PriceAGC = 0, Qty = 2,
      Side = ''BUY'', Reason = '''', NextCheckSec = 0\<rparr> = ''''
   \<and> ToLower (TrimSpace '' Trade'') = ''trade''
   \<and> ToUpper (TrimSpace ''xyz'') = ''XYZ''
   \<and> ToLower (TrimSpace ''BUY'') = ''buy''
   \<and> validateStrictAction
     \<lparr>Action = ''wait'', AssetSymbol = '''', Category = '''', PriceAGC = 0, Qty = 0,
      Side = '''', Reason = '''', NextCheckSec = 7\<rparr> = ''''"
  using validateStrictAction_accepted
    [of "\<lparr>Action = '' Trade'', AssetSymbol = ''xyz'', Category = '''', PriceAGC = 0, Qty = 2,
      Side = ''BUY'', Reason = '''', NextCheckSec = 0\<rparr>"]
    validateStrictAction_accepted
    [of "\<lparr>Action = ''wait'', AssetSymbol = '''', Category = '''', PriceAGC = 0, Qty = 0,
      Side = '''', Reason = '''', NextCheckSec = 7\<rparr>"]
  by (simp add: validateStrictAction_def ToLower_def ToUpper_def TrimSpace_def isSpace_def
      toLowerC_def toUpperC_def)

section \<open>Strict validation: the message for noop\<close>

text \<open>
  C9 (as amended). An action whose kind reads noop (after trimming and lower-casing) is
  rejected with exactly the message "noop is not allowed". A kind that is empty after
  trimming is rejected with "missing action". Any other kind outside the four canonical
  ones is rejected with "invalid action: " followed by the kind as the action gives it.
  No action whose kind does not read noop gets the noop message.
\<close>

theorem validateStrictAction_noop_message:
  "(ToLower (TrimSpace (Action a)) = ''noop'' \<longrightarrow>
      validateStrictAction a = ''noop is not allowed'')
   \<and> (ToLower (TrimSpace (Action a)) = '''' \<longrightarrow>
      validateStrictAction a = ''missing action'')
   \<and> (ToLower (TrimSpace (Action a)) \<noteq> ''noop'' \<and>
        ToLower (TrimSpace (Action a)) \<noteq> '''' \<and>
        ToLower (TrimSpace (Action a)) \<noteq> ''post_offer'' \<and>
        ToLower (TrimSpace (Action a)) \<noteq> ''create_rfq'' \<and>
        ToLower (TrimSpace (Action a)) \<noteq> ''trade'' \<and>
        ToLower (TrimSpace (Action a)) \<noteq> ''wait'' \<longrightarrow>
      validateStrictAction a = ''invalid action: '' @ Action a)
   \<and> (ToLower (TrimSpace (Action a)) \<noteq> ''noop'' \<longrightarrow>
      validateStrictAction a \<noteq> ''noop is not allowed'')"
  by (auto simp: validateStrictAction_def Let_def split: if_splits)

theorem validateStrictAction_noop_message_witness:
  "validateStrictAction
     \<lparr>Action = ''NoOp '', AssetSymbol = ''XYZ'', Category = '''', PriceAGC = 1, Qty = 1,
      Side = '''', Reason = '''', NextCheckSec = 0\<rparr> = ''noop is not allowed''
   \<and> validateStrictAction
     \<lparr>Action = ''dance'', AssetSymbol = ''XYZ'', Category = '''', PriceAGC = 1, Qty = 1,
      Side = '''', Reason = '''', NextCheckSec = 0\<rparr> = ''invalid action: dance''
   \<and> validateStrictAction
     \<lparr>Action = '' '', AssetSymbol = ''XYZ'', Category = '''', PriceAGC = 1, Qty = 1,
      Side = '''', Reason = '''', NextCheckSec = 0\<rparr> = ''missing action''"
  using validateStrictAction_noop_message
    [of "\<lparr>Action = ''NoOp '', AssetSymbol = ''XYZ'', Category = '''', PriceAGC = 1, Qty = 1,
      Side = '''', Reason = '''', NextCheckSec = 0\<rparr>"]
    validateStrictAction_noop_message
    [of "\<lparr>Action = ''dance'', AssetSymbol = ''XYZ'', Category = '''', PriceAGC = 1, Qty = 1,
      Side = '''', Reason = '''', NextCheckSec = 0\<rparr>"]
    validateStrictAction_noop_message
    [of "\<lparr>Action = '' '', AssetSymbol = ''XYZ'', Category = '''', PriceAGC = 1, Qty = 1,
      Side = '''', Reason = '''', NextCheckSec = 0\<rparr>"]
  by (simp add: ToLower_def TrimSpace_def isSpace_def toLowerC_def)

text \<open>
  C9 as stated gives every unsupported kind other than noop the generic message that
  names the kind. A kind of one blank is none of the four canonical kinds and is not
  noop, and its message is "missing action", not "invalid action: " followed by the
  kind.
\<close>

theorem validateStrictAction_blank_kind_counterexample:
  "ToLower (TrimSpace (Action
     \<lparr>Action = '' '', AssetSymbol = ''XYZ'', Category = '''', PriceAGC = 1, Qty = 1,
      Side = '''', Reason = '''', NextCheckSec = 0\<rparr>)) \<notin>
       {''noop'', ''post_offer'', ''create_rfq'', ''trade'', ''wait''}
   \<and> validateStrictAction
     \<lparr>Action = '' '', AssetSymbol = ''XYZ'', Category = '''', PriceAGC = 1, Qty = 1,
      Side = '''', Reason = '''', NextCheckSec = 0\<rparr> = ''missing action''
   \<and> validateStrictAction
     \<lparr>Action = '' '', AssetSymbol = ''XYZ'', Category = '''', PriceAGC = 1, Qty = 1,
      Side = '''', Reason = '''', NextCheckSec = 0\<rparr> \<noteq> ''invalid action: '' @ '' ''"
  by (simp add: validateStrictAction_def ToLower_def TrimSpace_def isSpace_def toLowerC_def)

section \<open>Reward scoring: base plus stacked penalties\<close>

text \<open>
  C8. For every status and error message the reward score is the base of the status
  (executed 0.8, wait 0.2, blocked -0.3, rejected -0.7, anything else -0.1) plus the
  sum of the penalties of the error categories whose phrases occur in the message
  (parse or decision error -0.5, schema error -0.4, insufficient balance -0.2, no
  matching liquidity -0.1); the penalties of several categories add up.
\<close>

theorem scoreDecisionOutcome_base_plus_penalties:
  "scoreDecisionOutcome status errMsg = specRewardScore status errMsg"
  by (simp add: scoreDecisionOutcome_def specRewardScore_def specStatusBase_def
      specErrorCategories_def Let_def)

section \<open>Decision memory: at most twelve entries, oldest first out\<close>

text \<open>
  C7. A push into a buffer of at most 12 entries leaves at most 12 entries. A push
  that inserts (the entry has a kind) into a full buffer drops exactly the oldest
  entry and appends the new one at the end, stored with status "logged" and the
  current time where the entry had none; into a buffer with room it only appends.
\<close>

theorem pushDecisionMemory_bounded_fifo:
  "(length (decisionMemory r) \<le> 12 \<longrightarrow>
      length (decisionMemory (pushDecisionMemory now entry r)) \<le> 12)
   \<and> (length (decisionMemory r) = 12 \<and> TrimSpace (mAction entry) \<noteq> '''' \<longrightarrow>
        decisionMemory (pushDecisionMemory now entry r) =
          tl (decisionMemory r) @
          [entry\<lparr>mStatus := (if TrimSpace (mStatus entry) = '''' then ''logged''
                               else mStatus entry),
                  mCreatedAt := (if TrimSpace (mCreatedAt entry) = '''' then now
                                  else mCreatedAt entry)\<rparr>])
   \<and> (length (decisionMemory r) < 12 \<and> TrimSpace (mAction entry) \<noteq> '''' \<longrightarrow>
        decisionMemory (pushDecisionMemory now entry r) =
          decisionMemory r @
          [entry\<lparr>mStatus := (if TrimSpace (mStatus entry) = '''' then ''logged''
                               else mStatus entry),
                  mCreatedAt := (if TrimSpace (mCreatedAt entry) = '''' then now
                                  else mCreatedAt entry)\<rparr>])"
proof -
  have one: "drop (Suc 0) xs = tl xs" for xs :: "memoryDecision list"
    by (simp add: drop_Suc)
  show ?thesis
    by (auto simp: pushDecisionMemory_def decisionMemoryLimit_def Let_def one)
qed

theorem pushDecisionMemory_bounded_fifo_witness:
  "length (decisionMemory fullMemory) = 12
   \<and> TrimSpace (mAction (waitEntry '''')) \<noteq> ''''
   \<and> decisionMemory (pushDecisionMemory ''13'' (waitEntry '''') fullMemory) =
       map waitEntry [''02'', ''03'', ''04'', ''05'', ''06'', ''07'', ''08'', ''09'',
                      ''10'', ''11'', ''12'', ''13'']
   \<and> decisionMemory (pushDecisionMemory ''01'' (waitEntry '''') (NewRunner ''me'' None)) =
       [waitEntry ''01'']"
  using pushDecisionMemory_bounded_fifo [of fullMemory "''13''" "waitEntry ''''"]
    pushDecisionMemory_bounded_fifo [of "NewRunner ''me'' None" "''01''" "waitEntry ''''"]
  by (simp add: fullMemory_def NewRunner_def waitEntry_def TrimSpace_def isSpace_def)

section \<open>Arithmetic of float64: whole numbers up to 2^53 are exact\<close>





lemma twoPow_pos: "0 < twoPow q"
  by (simp add: twoPow_def)




lemma roundFinite_nonneg: "0 \<le> x \<Longrightarrow> 0 \<le> roundFinite x"
proof (cases "x = 0")
  case True
  then show ?thesis by (simp add: roundFinite_def)
next
  case False
  assume nn: "0 \<le> x"
  let ?q = "max (binaryExponent x) (- 1022) - 52"
  from nn twoPow_pos [of ?q] have "0 \<le> x / twoPow ?q" by simp
  then have "0 \<le> \<lfloor>x / twoPow ?q\<rfloor>" by simp
  then have "0 \<le> roundHalfEven (x / twoPow ?q)" by (simp add: roundHalfEven_def Let_def)
  with twoPow_pos [of ?q] False show ?thesis by (simp add: roundFinite_def Let_def)
qed

lemmas float_eval = roundToFloat64_def roundFinite_def binaryExponent_def bitLength.simps
  twoPow_def roundHalfEven_def fmul_def fadd_def flt_def float64OfUint64_def roundAway_def Let_def

lemma eps_value: "eps = 4835703278458517 / 2 ^ 82"
  by (simp add: eps_def float_eval)

lemma eps_bounds: "0 < eps" "eps < 1"
  by (simp_all add: eps_value)

text \<open>
  Three roundings that exact arithmetic would miss: the \<open>float64\<close> next to 0.3 times 5
  is 1.5, where the exact product is below 1.5; 205 times 8998411743272952 is rounded up
  by 104; 2^53 less 0.75 is 2^53 - 1.
\<close>

lemma float64_rounds:
  "roundFinite (3 / 10) = 5404319552844595 / 2 ^ 54"
  "fmul (roundFinite (3 / 10)) (float64OfUint64 5) = Finite (3 / 2)"
  "fmul 205 (float64OfUint64 8998411743272952) = Finite 1844674407370955264"
  "fsub (Finite 9007199254740992) (3 / 4) = Finite 9007199254740991"
  by (simp_all add: float_eval)

section \<open>Liquidity matching: the total of the qualifying counter-orders\<close>








lemma norm_X: "ToUpper (TrimSpace ''X'') = ''X''" "ToLower (TrimSpace ''buy'') = ''buy''"
  "ToLower (TrimSpace ''open'') = ''open''"
  by (simp_all add: ToUpper_def ToLower_def TrimSpace_def isSpace_def toUpperC_def toLowerC_def)


lemma two_plus_eps: "fadd 2 eps = Finite (4503599629622296 / 2 ^ 51)"
  by (simp add: eps_value float_eval)




section \<open>Arithmetic of the preflight\<close>

text \<open>
  Rounding a float that is not negative and converting it to \<open>uint64\<close> is exact below
  2^64; at a fee rate of 10 basis points the fee and the sum of cost and fee do not wrap
  around while ten times the notional stays below 2^64; the settlement needed for a
  post_offer does not wrap around while the sum of the naturals is below 2^64.
\<close>

lemma roundAway_nonneg: "0 \<le> x \<Longrightarrow> 0 \<le> roundAway x"
  by (simp add: roundAway_def)

lemma roundAway_floor: "of_int \<lfloor>roundAway x\<rfloor> = roundAway x"
  by (simp add: roundAway_def)

lemma uint64OfFloat_in_range:
  assumes "0 \<le> x" and "x < 2 ^ 64"
  shows "unat (uint64OfFloat conv (Finite x)) = nat \<lfloor>x\<rfloor>"
proof -
  have nn: "0 \<le> \<lfloor>x\<rfloor>" using assms(1) by simp
  have "\<lfloor>x\<rfloor> < 2 ^ 64" using assms(2) by (simp add: floor_less_iff)
  with nn have lt: "nat \<lfloor>x\<rfloor> < 2 ^ 64" by (simp add: nat_less_iff)
  from assms have "uint64OfFloat conv (Finite x) = word_of_int \<lfloor>x\<rfloor>"
    by simp
  also have "\<dots> = (of_nat (nat \<lfloor>x\<rfloor>) :: u64)"
    using nn by (simp add: of_nat_nat)
  finally have "unat (uint64OfFloat conv (Finite x)) = nat \<lfloor>x\<rfloor> mod 2 ^ 64"
    by (simp only: unat_of_nat) simp
  with lt show ?thesis by simp
qed

lemma roundToFloat64_Finite: "roundToFloat64 x = Finite p \<Longrightarrow> p = roundFinite x"
  by (simp add: roundToFloat64_def Let_def split: if_splits)

lemma calcTradeFee_exact:
  assumes "tradeFeeBps fees = 10" and "unat n * 10 < 2 ^ 64"
  shows "unat (calcTradeFee fees n) = unat n * 10 div 10000"
proof (cases "n = 0")
  case True
  then show ?thesis by (simp add: calcTradeFee_def)
next
  case False
  have ten: "unat (10 :: u64) = 10" and tt: "unat (10000 :: u64) = 10000" by simp_all
  from assms(2) have "unat n * unat (10 :: u64) < 2 ^ LENGTH(64)" by (simp add: ten)
  then have "unat (n * 10) = unat n * unat (10 :: u64)" by (simp only: unat_mult_lem)
  then have "unat (n * 10 div 10000) = unat n * 10 div 10000"
    by (simp only: unat_div ten tt)
  with False show ?thesis by (simp add: calcTradeFee_def assms(1))
qed

lemma cost_plus_fee_exact:
  assumes "tradeFeeBps fees = 10" and "unat n * 10 < 2 ^ 64"
  shows "unat (n + calcTradeFee fees n) = unat n + unat n * 10 div 10000"
proof -
  have "unat n + unat (calcTradeFee fees n) < 2 ^ LENGTH(64)"
    using assms(2) by (simp add: calcTradeFee_exact [OF assms])
  then have "unat (n + calcTradeFee fees n) = unat n + unat (calcTradeFee fees n)"
    by (simp only: unat_add_lem)
  then show ?thesis by (simp only: calcTradeFee_exact [OF assms])
qed

lemma needAGC_exact:
  fixes offerFee mintFee qty held :: u64
  assumes "unat offerFee + (unat qty - unat held) * unat mintFee < 2 ^ 64"
  shows "unat (offerFee + (if held < qty then qty - held else 0) * mintFee) =
     unat offerFee + (unat qty - unat held) * unat mintFee"
proof -
  let ?mint = "if held < qty then qty - held else 0"
  have mint: "unat ?mint = unat qty - unat held"
    by (auto simp: unat_sub word_less_nat_alt word_le_nat_alt)
  from assms have "unat ?mint * unat mintFee < 2 ^ LENGTH(64)" by (simp only: mint) simp
  then have prod: "unat (?mint * mintFee) = unat ?mint * unat mintFee"
    by (simp only: unat_mult_lem)
  from assms have "unat offerFee + unat (?mint * mintFee) < 2 ^ LENGTH(64)"
    by (simp only: prod mint) simp
  then have "unat (offerFee + ?mint * mintFee) = unat offerFee + unat (?mint * mintFee)"
    by (simp only: unat_add_lem)
  then show ?thesis by (simp only: prod mint)
qed

lemmas example_defs = otherOffer_def bookWithSettlement_def tradeBuy_def postOffer_def
  NewRunner_def declaredFees_def mintFeeOf_def

lemmas eval_defs = preflight_def preflightTrade_def preflightPostOffer_def
  ToLower_def ToUpper_def TrimSpace_def isSpace_def toLowerC_def toUpperC_def
  mapGet_def calcTradeFee_def maxOpenOffersPerAgent_def maxOpenOffersPerAsset_def
  hasTradeLiquidity_def isOpenStatus_def float_eval

lemma ten_units: "float64OfUint64 10 = 10" "fmul 2 10 = Finite 20"
  "fsub (Finite 10) 10 = Finite 0"
  by (simp_all add: float_eval)

lemma big_units: "float64OfUint64 1000000000000000000 = 1000000000000000000"
  "fmul 2 1000000000000000000 = Finite 2000000000000000000"
  "fsub (Finite 1000000000000000000) 1000000000000000000 = Finite 0"
  by (simp_all add: float_eval)

section \<open>Risk preflight of a post_offer: limits, price and fees\<close>

text \<open>
  C3 (as amended). For a post_offer that reaches the rules of its kind (balances known,
  rounded quantity not 0, asset named and not AGC), whatever the two fee variables
  hold, as long as the required settlement, offer fee + (qty - held balance, or 0 when
  the balance covers the quantity) * per-unit mint fee, is below 2^64: the action is
  blocked when the agent has 5 or more open offers; else blocked when the asset has 3 or
  more; else blocked when the price is not above 0; else blocked when the settlement
  balance is below the required settlement; else it proceeds. With both fees 0, as the
  code declares them, and balances of 100 AGC and 0 X, a post_offer of 2 X at price 5
  proceeds; it still proceeds at a mint fee of 50 and is blocked at a mint fee of 51.
\<close>

theorem preflight_post_offer_rules:
  fixes conv :: "float64 \<Rightarrow> u64" and fees :: Fees and r :: Runner and a :: Action
  defines "asset \<equiv> ToUpper (TrimSpace (AssetSymbol a))"
    and "qty \<equiv> uint64OfFloat conv (mathRound (Finite (Qty a)))"
  defines "required \<equiv> unat (offerFeeAGC fees) +
       (unat qty - unat (mapGet (lastBalances r) asset)) * unat (syntheticMintFeePerUnitAGC fees)"
  assumes bal: "lastBalances r \<noteq> []"
    and q: "qty \<noteq> 0"
    and asset: "asset \<noteq> ''''" "asset \<noteq> ''AGC''"
    and kind: "ToLower (TrimSpace (Action a)) = ''post_offer''"
    and fits: "required < 2 ^ 64"
  shows "preflight conv fees r a =
     (if 5 \<le> lastOpenOffers r then (''blocked'', ''open offer limit reached'')
      else if 3 \<le> mapGet (lastOffersByAS r) asset then (''blocked'', ''asset offer limit reached'')
      else if PriceAGC a \<le> 0 then (''blocked'', ''price must be positive'')
      else if unat (mapGet (lastBalances r) ''AGC'') < required
      then (''blocked'', ''insufficient AGC for offer fee/mint'')
      else ('''', ''''))"
proof -
  have pre: "preflight conv fees r a = preflightPostOffer fees r a asset qty"
    using bal q asset kind by (simp add: preflight_def Let_def asset_def qty_def)
  have need: "unat (offerFeeAGC fees +
        (if mapGet (lastBalances r) asset < qty then qty - mapGet (lastBalances r) asset else 0) *
        syntheticMintFeePerUnitAGC fees) = required"
    unfolding required_def by (rule needAGC_exact) (use fits in \<open>simp only: required_def\<close>)
  have cmp: "(mapGet (lastBalances r) ''AGC'' < offerFeeAGC fees +
        (if mapGet (lastBalances r) asset < qty then qty - mapGet (lastBalances r) asset else 0) *
        syntheticMintFeePerUnitAGC fees) = (unat (mapGet (lastBalances r) ''AGC'') < required)"
    using need by (metis word_less_nat_alt)
  show ?thesis
    unfolding pre preflightPostOffer_def Let_def cmp
    by (simp add: maxOpenOffersPerAgent_def maxOpenOffersPerAsset_def)
qed

theorem preflight_post_offer_rules_witness:
  "lastBalances (bookWithSettlement 100 []) = [(''AGC'', 100), (''X'', 0)]
   \<and> uint64OfFloat (\<lambda>x. 0) (mathRound (Finite (Qty (postOffer 2 5)))) = 2
   \<and> ToUpper (TrimSpace (AssetSymbol (postOffer 2 5))) = ''X''
   \<and> ToLower (TrimSpace (Action (postOffer 2 5))) = ''post_offer''
   \<and> offerFeeAGC declaredFees = 0 \<and> syntheticMintFeePerUnitAGC declaredFees = 0
   \<and> preflight (\<lambda>x. 0) declaredFees (bookWithSettlement 100 []) (postOffer 2 5) = ('''', '''')
   \<and> preflight (\<lambda>x. 0) (mintFeeOf 50) (bookWithSettlement 100 []) (postOffer 2 5) = ('''', '''')
   \<and> preflight (\<lambda>x. 0) (mintFeeOf 51) (bookWithSettlement 100 []) (postOffer 2 5) =
        (''blocked'', ''insufficient AGC for offer fee/mint'')"
proof -
  have ev: "lastBalances (bookWithSettlement 100 []) = [(''AGC'', 100), (''X'', 0)]"
    "uint64OfFloat (\<lambda>x. 0) (mathRound (Finite (Qty (postOffer 2 5)))) = 2"
    "ToUpper (TrimSpace (AssetSymbol (postOffer 2 5))) = ''X''"
    "ToLower (TrimSpace (Action (postOffer 2 5))) = ''post_offer''"
    by (simp_all add: example_defs eval_defs)
  have rest: "lastOpenOffers (bookWithSettlement 100 []) = 0"
    "mapGet (lastOffersByAS (bookWithSettlement 100 [])) ''X'' = 0"
    "PriceAGC (postOffer 2 5) = 5"
    "mapGet (lastBalances (bookWithSettlement 100 [])) ''AGC'' = 100"
    "mapGet (lastBalances (bookWithSettlement 100 [])) ''X'' = 0"
    "lastBalances (bookWithSettlement 100 []) \<noteq> []"
    by (simp_all add: example_defs mapGet_def)
  have fees: "offerFeeAGC declaredFees = 0" "syntheticMintFeePerUnitAGC declaredFees = 0"
    "offerFeeAGC (mintFeeOf m) = 0" "syntheticMintFeePerUnitAGC (mintFeeOf m) = m" for m
    by (simp_all add: declaredFees_def mintFeeOf_def)
  from preflight_post_offer_rules
    [where conv = "\<lambda>x. 0" and fees = declaredFees and a = "postOffer 2 5"
       and r = "bookWithSettlement 100 []"]
  have p0: "preflight (\<lambda>x. 0) declaredFees (bookWithSettlement 100 []) (postOffer 2 5) = ('''', '''')"
    by (simp add: ev(2-) rest fees del: uint64OfFloat.simps mathRound.simps)
  from preflight_post_offer_rules
    [where conv = "\<lambda>x. 0" and fees = "mintFeeOf 50" and a = "postOffer 2 5"
       and r = "bookWithSettlement 100 []"]
  have p50: "preflight (\<lambda>x. 0) (mintFeeOf 50) (bookWithSettlement 100 []) (postOffer 2 5) = ('''', '''')"
    by (simp add: ev(2-) rest fees del: uint64OfFloat.simps mathRound.simps)
  from preflight_post_offer_rules
    [where conv = "\<lambda>x. 0" and fees = "mintFeeOf 51" and a = "postOffer 2 5"
       and r = "bookWithSettlement 100 []"]
  have p51: "preflight (\<lambda>x. 0) (mintFeeOf 51) (bookWithSettlement 100 []) (postOffer 2 5) =
        (''blocked'', ''insufficient AGC for offer fee/mint'')"
    by (simp add: ev(2-) rest fees del: uint64OfFloat.simps mathRound.simps)
  from ev fees(1,2) p0 p50 p51 show ?thesis by simp
qed

text \<open>
  C3 as stated has no bound on the required settlement. The code computes it in
  \<open>uint64\<close>: at a mint fee of 2 a post_offer of 2^63 units of an asset the agent does not
  hold needs 2^64, which wraps around to 0, and the action proceeds with a settlement
  balance of 100. The quantity is a \<open>float64\<close> and a \<open>uint64\<close> exactly.
\<close>

theorem preflight_post_offer_wrap_counterexample:
  "preflight (\<lambda>x. 0) (mintFeeOf 2) (bookWithSettlement 100 []) (postOffer 9223372036854775808 5)
     = ('''', '''')
   \<and> uint64OfFloat (\<lambda>x. 0) (mathRound (Finite (Qty (postOffer 9223372036854775808 5))))
       = 9223372036854775808
   \<and> lastOpenOffers (bookWithSettlement 100 []) = 0
   \<and> mapGet (lastOffersByAS (bookWithSettlement 100 [])) ''X'' = 0
   \<and> mapGet (lastBalances (bookWithSettlement 100 [])) ''X'' = 0
   \<and> mapGet (lastBalances (bookWithSettlement 100 [])) ''AGC'' = 100
   \<and> offerFeeAGC (mintFeeOf 2) = 0
   \<and> syntheticMintFeePerUnitAGC (mintFeeOf 2) = 2
   \<and> (100 :: nat) < 0 + (9223372036854775808 - 0) * 2"
  by (simp add: example_defs eval_defs)

section \<open>Risk preflight of a trade: fee and balances\<close>

text \<open>
  C2 (as amended). For a trade that reaches the rules of its kind (balances known,
  rounded quantity not 0, asset named and not AGC, side buy or sell), with the price of
  the action or, failing that, the last market price: an unresolved price blocks with
  "price unavailable". With a resolved price, the fee rate of 10 basis points that the
  code declares, a finite \<open>float64\<close> product p of the price and the quantity, and a
  notional, p rounded to a whole number, so small that ten times the notional is below
  2^64: the code's notional and fee are these, fee = floor(notional * 10 / 10000); a sell
  proceeds exactly when the asset balance is at least the quantity, the settlement
  balance at least the fee, and the RFQ liquidity check succeeds; a buy proceeds exactly
  when the settlement balance is at least notional + fee and the offer liquidity check
  succeeds; every other outcome is "blocked". A buy of 10 at price 2 has notional 20 and
  fee 0, is blocked at a settlement balance of 19 and proceeds at 20.
\<close>

theorem preflight_trade_fee_and_balances:
  fixes conv :: "float64 \<Rightarrow> u64" and fees :: Fees and r :: Runner and a :: Action and p :: real
  defines "asset \<equiv> ToUpper (TrimSpace (AssetSymbol a))"
    and "qty \<equiv> uint64OfFloat conv (mathRound (Finite (Qty a)))"
    and "side \<equiv> ToLower (TrimSpace (Side a))"
  defines "price \<equiv> (if PriceAGC a \<le> 0 then mapGet (lastTokenPrice r) asset else PriceAGC a)"
  defines "notional \<equiv> nat \<lfloor>roundAway p\<rfloor>"
  defines "fee \<equiv> notional * 10 div 10000"
    and "settle \<equiv> unat (mapGet (lastBalances r) ''AGC'')"
    and "held \<equiv> unat (mapGet (lastBalances r) asset)"
  assumes bal: "lastBalances r \<noteq> []"
    and q: "qty \<noteq> 0"
    and asset: "asset \<noteq> ''''" "asset \<noteq> ''AGC''"
    and kind: "ToLower (TrimSpace (Action a)) = ''trade''"
    and side: "side = ''buy'' \<or> side = ''sell''"
    and bps: "tradeFeeBps fees = 10"
    and product: "fmul price (float64OfUint64 qty) = Finite p"
    and fits: "notional * 10 < 2 ^ 64"
  shows "(price \<le> 0 \<longrightarrow> preflight conv fees r a = (''blocked'', ''price unavailable''))
    \<and> (0 < price \<longrightarrow>
         unat (uint64OfFloat conv (mathRound (fmul price (float64OfUint64 qty)))) = notional \<and>
         unat (calcTradeFee fees
                 (uint64OfFloat conv (mathRound (fmul price (float64OfUint64 qty))))) = fee \<and>
         (side = ''sell'' \<longrightarrow>
            (preflight conv fees r a = ('''', '''')) =
              (unat qty \<le> held \<and> fee \<le> settle \<and> hasTradeLiquidity r ''sell'' asset price qty)) \<and>
         (side = ''buy'' \<longrightarrow>
            (preflight conv fees r a = ('''', '''')) =
              (notional + fee \<le> settle \<and> hasTradeLiquidity r ''buy'' asset price qty)) \<and>
         (preflight conv fees r a \<noteq> ('''', '''') \<longrightarrow> fst (preflight conv fees r a) = ''blocked''))"
proof -
  let ?x = "roundAway p"
  let ?cost = "uint64OfFloat conv (mathRound (fmul price (float64OfUint64 qty)))"
  have pre: "preflight conv fees r a = preflightTrade conv fees r a asset qty"
    using bal q asset kind by (simp add: preflight_def Let_def asset_def qty_def)
  have unresolved: "preflight conv fees r a = (''blocked'', ''price unavailable'')" if "price \<le> 0"
    using that side unfolding pre preflightTrade_def Let_def price_def [symmetric] side_def [symmetric]
      asset_def [symmetric]
    by auto
  have resolved: ?thesis if pos: "0 < price"
  proof -
    have "0 \<le> float64OfUint64 qty"
      unfolding float64OfUint64_def by (rule roundFinite_nonneg) (rule of_nat_0_le_iff)
    with pos have x0: "0 \<le> price * float64OfUint64 qty" by simp
    from product have "p = roundFinite (price * float64OfUint64 qty)"
      unfolding fmul_def by (rule roundToFloat64_Finite)
    with x0 have "0 \<le> p" by (simp only: roundFinite_nonneg)
    then have r0: "0 \<le> ?x" by (rule roundAway_nonneg)
    have "notional < 2 ^ 64" using fits by linarith
    moreover have "0 \<le> \<lfloor>?x\<rfloor>" using r0 by simp
    ultimately have "\<lfloor>?x\<rfloor> < 2 ^ 64" unfolding notional_def by (simp add: nat_less_iff)
    then have "of_int \<lfloor>?x\<rfloor> < (2 ^ 64 :: real)" by (metis of_int_less_iff of_int_numeral of_int_power)
    then have lt: "?x < 2 ^ 64" by (simp only: roundAway_floor)
    have cost_eq: "?cost = uint64OfFloat conv (Finite ?x)"
      by (simp only: product mathRound.simps)
    have cost: "unat ?cost = notional"
      unfolding notional_def cost_eq by (rule uint64OfFloat_in_range [OF r0 lt])
    from fits have fits': "unat ?cost * 10 < 2 ^ 64" by (simp only: cost)
    have fee: "unat (calcTradeFee fees ?cost) = fee"
      unfolding fee_def using calcTradeFee_exact [OF bps fits'] by (simp only: cost)
    have sum: "unat (?cost + calcTradeFee fees ?cost) = notional + fee"
      unfolding fee_def using cost_plus_fee_exact [OF bps fits'] by (simp only: cost)
    have np: "\<not> price \<le> 0" using pos by simp
    have sell: "(preflight conv fees r a = ('''', '''')) =
        (unat qty \<le> held \<and> fee \<le> settle \<and> hasTradeLiquidity r ''sell'' asset price qty)"
      if "side = ''sell''"
      unfolding pre preflightTrade_def Let_def price_def [symmetric] side_def [symmetric]
        asset_def [symmetric]
      using that np
      by (auto simp: word_less_nat_alt fee held_def settle_def not_less)
    have buy: "(preflight conv fees r a = ('''', '''')) =
        (notional + fee \<le> settle \<and> hasTradeLiquidity r ''buy'' asset price qty)"
      if "side = ''buy''"
      unfolding pre preflightTrade_def Let_def price_def [symmetric] side_def [symmetric]
        asset_def [symmetric]
      using that np
      by (auto simp: word_less_nat_alt sum settle_def not_less)
    have blocked: "fst (preflight conv fees r a) = ''blocked''"
      if "preflight conv fees r a \<noteq> ('''', '''')"
      using that
      unfolding pre preflightTrade_def Let_def
      by (auto split: if_splits)
    from cost fee sell buy blocked pos show ?thesis by auto
  qed
  from unresolved resolved show ?thesis by (cases "price \<le> 0") auto
qed

theorem preflight_trade_fee_and_balances_witness:
  "preflight (\<lambda>x. 0) declaredFees (bookWithSettlement 20 [otherOffer ''X'' 2 10]) (tradeBuy 10 2)
       = ('''', '''')
   \<and> preflight (\<lambda>x. 0) declaredFees (bookWithSettlement 19 [otherOffer ''X'' 2 10]) (tradeBuy 10 2)
       = (''blocked'', ''insufficient AGC balance'')
   \<and> tradeFeeBps declaredFees = 10
   \<and> fmul 2 (float64OfUint64 10) = Finite 20
   \<and> nat \<lfloor>roundAway 20\<rfloor> = 20
   \<and> unat (calcTradeFee declaredFees 20) = 0"
proof -
  have ev: "ToUpper (TrimSpace (AssetSymbol (tradeBuy 10 2))) = ''X''"
    "uint64OfFloat (\<lambda>x. 0) (mathRound (Finite (Qty (tradeBuy 10 2)))) = 10"
    "ToLower (TrimSpace (Side (tradeBuy 10 2))) = ''buy''"
    "ToLower (TrimSpace (Action (tradeBuy 10 2))) = ''trade''"
    "PriceAGC (tradeBuy 10 2) = 2"
    "nat \<lfloor>roundAway 20\<rfloor> = 20"
    "tradeFeeBps declaredFees = 10"
    by (simp_all add: example_defs eval_defs)
  have prod: "fmul 2 (float64OfUint64 10) = Finite 20"
    by (simp only: ten_units)
  have liq: "hasTradeLiquidity (bookWithSettlement agc [otherOffer ''X'' 2 10]) ''buy'' ''X'' 2 10" for agc
    using eps_bounds(1)
    by (simp add: hasTradeLiquidity_def example_defs isOpenStatus_def norm_X two_plus_eps
        flt_def ten_units less_imp_le Let_def del: fsub.simps)
  have bal: "lastBalances (bookWithSettlement agc offers) \<noteq> []"
    "unat (mapGet (lastBalances (bookWithSettlement 20 offers)) ''AGC'') = 20"
    "unat (mapGet (lastBalances (bookWithSettlement 19 offers)) ''AGC'') = 19" for agc offers
    by (simp_all add: example_defs mapGet_def)
  have cost20: "uint64OfFloat (\<lambda>x. 0) (mathRound (Finite 20)) = 20"
    by (simp add: roundAway_def)
  have fee0: "calcTradeFee declaredFees 20 = 0"
    by (simp add: calcTradeFee_def declaredFees_def)
  have balw: "mapGet (lastBalances (bookWithSettlement agc offers)) ''AGC'' = agc" for agc offers
    by (simp add: bookWithSettlement_def NewRunner_def mapGet_def)
  from preflight_trade_fee_and_balances
    [where conv = "\<lambda>x. 0" and fees = declaredFees and a = "tradeBuy 10 2" and p = 20
       and r = "bookWithSettlement 20 [otherOffer ''X'' 2 10]"]
  have p20: "preflight (\<lambda>x. 0) declaredFees (bookWithSettlement 20 [otherOffer ''X'' 2 10])
      (tradeBuy 10 2) = ('''', '''')"
    by (simp add: ev bal liq prod del: uint64OfFloat.simps mathRound.simps)
  from preflight_trade_fee_and_balances
    [where conv = "\<lambda>x. 0" and fees = declaredFees and a = "tradeBuy 10 2" and p = 20
       and r = "bookWithSettlement 19 [otherOffer ''X'' 2 10]"]
  have "preflight (\<lambda>x. 0) declaredFees (bookWithSettlement 19 [otherOffer ''X'' 2 10])
      (tradeBuy 10 2) \<noteq> ('''', '''')"
    by (simp add: ev bal liq prod del: uint64OfFloat.simps mathRound.simps)
  then have p19: "preflight (\<lambda>x. 0) declaredFees (bookWithSettlement 19 [otherOffer ''X'' 2 10])
      (tradeBuy 10 2) = (''blocked'', ''insufficient AGC balance'')"
    by (simp add: preflight_def preflightTrade_def Let_def ev bal balw prod cost20 fee0
        del: uint64OfFloat.simps mathRound.simps)
  have fee: "unat (calcTradeFee declaredFees 20) = 0" by (simp add: calcTradeFee_def declaredFees_def)
  from p20 p19 ev(6,7) prod fee show ?thesis by simp
qed

text \<open>
  C2 as stated has no bound on the notional. The fee is computed in \<open>uint64\<close>, and
  \<open>notional * 10\<close> wraps around from 2^64 / 10 on: a buy of 10^18 units at price 2 has
  notional 2 * 10^18, the code charges a fee of 155325592629044 where the formula gives
  2 * 10^15, and the buy proceeds with a settlement balance below notional + fee. Every
  number of the example is a \<open>float64\<close> and a \<open>uint64\<close> exactly.
\<close>

theorem preflight_trade_fee_overflow_counterexample:
  "preflight (\<lambda>x. 0) declaredFees
      (bookWithSettlement 2000155325592629044 [otherOffer ''X'' 2 1000000000000000000])
      (tradeBuy 1000000000000000000 2) = ('''', '''')
   \<and> fmul 2 (float64OfUint64 1000000000000000000) = Finite 2000000000000000000
   \<and> nat \<lfloor>roundAway 2000000000000000000\<rfloor> = 2000000000000000000
   \<and> unat (calcTradeFee declaredFees 2000000000000000000) = 155325592629044
   \<and> (2000000000000000000 * 10 div 10000 :: nat) = 2000000000000000
   \<and> unat (mapGet (lastBalances
        (bookWithSettlement 2000155325592629044 [otherOffer ''X'' 2 1000000000000000000])) ''AGC'')
       < 2000000000000000000 + 2000000000000000000 * 10 div 10000"
proof -
  have qty: "uint64OfFloat (\<lambda>x. 0) (mathRound (Finite (Qty (tradeBuy 1000000000000000000 2))))
      = 1000000000000000000"
    by (simp add: tradeBuy_def roundAway_def)
  have cost: "uint64OfFloat (\<lambda>x. 0) (mathRound (Finite 2000000000000000000)) = 2000000000000000000"
    by (simp add: roundAway_def)
  have fee: "calcTradeFee declaredFees 2000000000000000000 = 155325592629044"
    by (simp add: calcTradeFee_def declaredFees_def)
  have liq: "hasTradeLiquidity
      (bookWithSettlement 2000155325592629044 [otherOffer ''X'' 2 1000000000000000000])
      ''buy'' ''X'' 2 1000000000000000000"
    using eps_bounds(1)
    by (simp add: hasTradeLiquidity_def example_defs isOpenStatus_def norm_X two_plus_eps
        flt_def big_units less_imp_le Let_def del: fsub.simps)
  have names: "ToUpper (TrimSpace ''X'') = ''X''" "ToLower (TrimSpace ''buy'') = ''buy''"
    "ToLower (TrimSpace ''trade'') = ''trade''"
    by (simp_all add: ToUpper_def ToLower_def TrimSpace_def isSpace_def toUpperC_def toLowerC_def)
  have run: "preflight (\<lambda>x. 0) declaredFees
      (bookWithSettlement 2000155325592629044 [otherOffer ''X'' 2 1000000000000000000])
      (tradeBuy 1000000000000000000 2) = ('''', '''')"
    using liq qty
    by (simp add: preflight_def preflightTrade_def Let_def names big_units cost fee mapGet_def
        bookWithSettlement_def tradeBuy_def NewRunner_def del: mathRound.simps uint64OfFloat.simps)
  have rest: "fmul 2 (float64OfUint64 1000000000000000000) = Finite 2000000000000000000"
    "nat \<lfloor>roundAway 2000000000000000000\<rfloor> = 2000000000000000000"
    "unat (calcTradeFee declaredFees 2000000000000000000) = 155325592629044"
    by (simp_all add: big_units fee roundAway_def)
  have bal: "unat (mapGet (lastBalances
        (bookWithSettlement 2000155325592629044 [otherOffer ''X'' 2 1000000000000000000])) ''AGC'')
       = 2000155325592629044"
    by (simp add: bookWithSettlement_def NewRunner_def mapGet_def)
  from run rest bal show ?thesis by simp
qed

section \<open>Memory seeding: the last eight decisions of the history\<close>

lemma keepLoop_filter: "keepLoop acc xs = acc @ filter keepsDecision xs"
  by (induction xs arbitrary: acc) (auto simp: keepsDecision_def Let_def)

lemma decisionLess_key: "decisionLess x y = (decisionKey x < decisionKey y)"
  by (auto simp: decisionLess_def decisionKey_def Let_def less_prod_def)

lemma insertStable_insort: "insertStable decisionLess x ys = insort_key decisionKey x ys"
  by (induction ys) (auto simp: decisionLess_key)

lemma SliceStable_sort_key: "SliceStable decisionLess xs = sort_key decisionKey xs"
  by (induction xs) (simp_all add: SliceStable_def sort_key_def insertStable_insort)

lemma lastN_lastN_append: "lastN n (lastN n xs @ ys) = lastN n (xs @ ys)"
  by (cases "length xs \<le> n") (simp_all add: lastN_def add.commute)

lemma all_dropWhile: "(\<forall>x\<in>set (dropWhile P t). P x) = (\<forall>x\<in>set t. P x)"
  by (induction t) auto

lemma TrimSpace_empty_iff: "TrimSpace t = [] \<longleftrightarrow> (\<forall>c\<in>set t. isSpace c)"
  by (simp add: TrimSpace_def dropWhile_eq_Nil_conv all_dropWhile)

lemma TrimSpace_has_nonspace:
  assumes "TrimSpace s \<noteq> []"
  shows "\<exists>c\<in>set (TrimSpace s). \<not> isSpace c"
proof -
  let ?ys = "dropWhile isSpace (rev (dropWhile isSpace s))"
  from assms have ne: "?ys \<noteq> []" by (simp add: TrimSpace_def)
  then have "\<not> isSpace (hd ?ys)" by (rule hd_dropWhile)
  moreover from ne have "hd ?ys \<in> set (TrimSpace s)" by (simp add: TrimSpace_def)
  ultimately show ?thesis by blast
qed

lemma isSpace_toLowerC: "isSpace (toLowerC c) = isSpace c"
  by (cases c) (auto simp: isSpace_def toLowerC_def less_eq_char_def)

lemma TrimSpace_ToLower_TrimSpace_nonempty:
  assumes "ToLower (TrimSpace s) \<noteq> ''''"
  shows "TrimSpace (ToLower (TrimSpace s)) \<noteq> ''''"
proof -
  from assms have "TrimSpace s \<noteq> []" by (simp add: ToLower_def)
  then obtain c where c: "c \<in> set (TrimSpace s)" "\<not> isSpace c"
    using TrimSpace_has_nonspace by blast
  then have "toLowerC c \<in> set (ToLower (TrimSpace s))" "\<not> isSpace (toLowerC c)"
    by (simp_all add: ToLower_def isSpace_toLowerC)
  then show ?thesis by (auto simp: TrimSpace_empty_iff)
qed

lemma pushDecisionMemory_stored:
  assumes "TrimSpace (mAction entry) \<noteq> ''''"
  shows "pushDecisionMemory now entry r =
     r\<lparr>decisionMemory := lastN 12 (decisionMemory r @ [storedEntry now entry])\<rparr>"
  using assms
  by (auto simp: pushDecisionMemory_def lastN_def storedEntry_def decisionMemoryLimit_def Let_def)

lemma seedLoop_memory:
  assumes "list_all keepsDecision items" and "items \<noteq> []"
  shows "seedLoop clock i items r =
     r\<lparr>decisionMemory := lastN 12 (decisionMemory r @
          map (\<lambda>(j, d). storedEntry (clock j) (memoryOfDecision d)) (enumerate i items))\<rparr>"
  using assms
proof (induction items arbitrary: i r)
  case Nil
  then show ?case by simp
next
  case (Cons d ds)
  from Cons.prems(1) have "ToLower (TrimSpace (dAction d)) \<noteq> ''''"
    by (simp add: keepsDecision_def)
  then have kind: "TrimSpace (mAction (memoryOfDecision d)) \<noteq> ''''"
    by (simp add: memoryOfDecision_def TrimSpace_ToLower_TrimSpace_nonempty)
  show ?case
  proof (cases "ds = []")
    case True
    then show ?thesis by (simp add: pushDecisionMemory_stored [OF kind])
  next
    case False
    with Cons have "seedLoop clock (Suc i) ds r' =
      r'\<lparr>decisionMemory := lastN 12 (decisionMemory r' @
          map (\<lambda>(j, d). storedEntry (clock j) (memoryOfDecision d)) (enumerate (Suc i) ds))\<rparr>" for r'
      by simp
    then show ?thesis
      by (simp add: pushDecisionMemory_stored [OF kind] lastN_lastN_append)
  qed
qed

lemma set_lastN: "set (lastN n xs) \<subseteq> set xs"
  by (simp add: lastN_def set_drop_subset)

lemma length_lastN: "length (lastN n xs) = min n (length xs)"
  by (simp add: lastN_def)

lemma sorted_lastN: "sorted (map f xs) \<Longrightarrow> sorted (map f (lastN n xs))"
  by (simp add: lastN_def sorted_wrt_drop flip: drop_map)

text \<open>
  C10. When the memory is seeded (not seeded before, a gateway client, an agent id,
  and a history that arrives), the decisions whose kind is empty or noop are dropped,
  the others are sorted ascending by trimmed time stamp, decision id breaking a tie,
  and only the last 8 of them are pushed, oldest first, through the same bounded push
  as any other entry: at most 8 entries are inserted, and the runner is marked as
  seeded.
\<close>

theorem seedDecisionMemory_last_eight:
  fixes clock :: "nat \<Rightarrow> string" and r :: Runner and idx :: IndexerClient
    and history :: "Decision list"
  defines "seeds \<equiv> lastN 8 (sort_key decisionKey (filter keepsDecision history))"
  assumes fresh: "\<not> memorySeeded r"
    and client: "Indexer r = Some idx"
    and agent: "TrimSpace (AgentID r) \<noteq> ''''"
    and answer: "GetAgentHistory idx (AgentID r) = Inr history"
  shows "length seeds \<le> 8
    \<and> sorted (map decisionKey seeds)
    \<and> decisionMemory (seedDecisionMemory clock r) =
        (if seeds = [] then decisionMemory r
         else lastN 12 (decisionMemory r @
                map (\<lambda>(j, d). storedEntry (clock j) (memoryOfDecision d)) (enumerate 0 seeds)))
    \<and> length (decisionMemory (seedDecisionMemory clock r)) \<le> length (decisionMemory r) + 8
    \<and> memorySeeded (seedDecisionMemory clock r)"
proof -
  let ?r1 = "r\<lparr>memorySeeded := True\<rparr>"
  let ?sorted = "sort_key decisionKey (filter keepsDecision history)"
  have len: "length seeds \<le> 8" by (simp add: seeds_def length_lastN)
  have srt: "sorted (map decisionKey seeds)"
    unfolding seeds_def by (rule sorted_lastN) simp
  have cut: "(if length ?sorted > decisionSeedLimit
              then drop (length ?sorted - decisionSeedLimit) ?sorted else ?sorted) = seeds"
    by (simp add: seeds_def lastN_def decisionSeedLimit_def)
  have run: "seedDecisionMemory clock r = (if history = [] then ?r1 else seedLoop clock 0 seeds ?r1)"
    using fresh client agent answer cut
    by (simp add: seedDecisionMemory_def Let_def keepLoop_filter SliceStable_sort_key)
  have none: "seeds = []" if "history = []" using that by (simp add: seeds_def lastN_def)
  have kept: "list_all keepsDecision seeds"
  proof -
    have "set seeds \<subseteq> set (filter keepsDecision history)"
      unfolding seeds_def using set_lastN [of 8 ?sorted] by simp
    then show ?thesis by (auto simp: list_all_iff)
  qed
  have mem: "decisionMemory (seedDecisionMemory clock r) =
        (if seeds = [] then decisionMemory r
         else lastN 12 (decisionMemory r @
                map (\<lambda>(j, d). storedEntry (clock j) (memoryOfDecision d)) (enumerate 0 seeds)))"
  proof (cases "seeds = []")
    case True
    then show ?thesis by (simp add: run)
  next
    case False
    with none have "history \<noteq> []" by blast
    with False show ?thesis
      by (simp add: run seedLoop_memory [OF kept False])
  qed
  have bound: "length (decisionMemory (seedDecisionMemory clock r)) \<le> length (decisionMemory r) + 8"
    using len by (auto simp: mem length_lastN)
  have flag: "memorySeeded (seedDecisionMemory clock r)"
  proof (cases "seeds = []")
    case True
    then show ?thesis by (simp add: run)
  next
    case False
    then show ?thesis by (simp add: run seedLoop_memory [OF kept False])
  qed
  from len srt mem bound flag show ?thesis by blast
qed

lemmas seed_eval_defs = tenPastDecisions_def pastDecision_def keepsDecision_def decisionKey_def
  lastN_def ToLower_def ToUpper_def TrimSpace_def isSpace_def toLowerC_def toUpperC_def
  less_eq_prod_def less_eq_char_def less_char_def

theorem seedDecisionMemory_last_eight_witness:
  "\<not> memorySeeded runnerWithHistory
   \<and> TrimSpace (AgentID runnerWithHistory) \<noteq> ''''
   \<and> length tenPastDecisions = 12
   \<and> length (filter keepsDecision tenPastDecisions) = 10
   \<and> decisionMemory (seedDecisionMemory (\<lambda>i. ''now'') runnerWithHistory) =
       map memoryOfDecision
         [pastDecision ''d03'' ''trade'' ''2025-01-03'',
          pastDecision ''d04'' ''trade'' ''2025-01-04'',
          pastDecision ''d05'' ''trade'' ''2025-01-05'',
          pastDecision ''d06'' ''trade'' ''2025-01-06'',
          pastDecision ''d07'' ''trade'' ''2025-01-07'',
          pastDecision ''d08'' ''trade'' ''2025-01-08'',
          pastDecision ''d09'' ''trade'' ''2025-01-09'',
          pastDecision ''d10'' ''trade'' ''2025-01-09'']"
proof -
  let ?idx = "\<lparr>GetAgentHistory = (\<lambda>agentID. Inr tenPastDecisions)\<rparr>"
  let ?seeds = "[pastDecision ''d03'' ''trade'' ''2025-01-03'',
          pastDecision ''d04'' ''trade'' ''2025-01-04'',
          pastDecision ''d05'' ''trade'' ''2025-01-05'',
          pastDecision ''d06'' ''trade'' ''2025-01-06'',
          pastDecision ''d07'' ''trade'' ''2025-01-07'',
          pastDecision ''d08'' ''trade'' ''2025-01-08'',
          pastDecision ''d09'' ''trade'' ''2025-01-09'',
          pastDecision ''d10'' ''trade'' ''2025-01-09'']"
  have hyps: "\<not> memorySeeded runnerWithHistory" "Indexer runnerWithHistory = Some ?idx"
    "TrimSpace (AgentID runnerWithHistory) \<noteq> ''''"
    "GetAgentHistory ?idx (AgentID runnerWithHistory) = Inr tenPastDecisions"
    by (simp_all add: runnerWithHistory_def NewRunner_def TrimSpace_def isSpace_def)
  have counts: "length tenPastDecisions = 12" "length (filter keepsDecision tenPastDecisions) = 10"
    by (simp_all add: seed_eval_defs)
  have seeds: "lastN 8 (sort_key decisionKey (filter keepsDecision tenPastDecisions)) = ?seeds"
    by (simp add: seed_eval_defs)
  have stored: "map (\<lambda>(j, d). storedEntry ((\<lambda>i. ''now'') j) (memoryOfDecision d))
      (enumerate 0 ?seeds) = map memoryOfDecision ?seeds"
    by (simp add: storedEntry_def memoryOfDecision_def pastDecision_def ToLower_def TrimSpace_def
        isSpace_def toLowerC_def)
  have empty: "decisionMemory runnerWithHistory = []"
    by (simp add: runnerWithHistory_def NewRunner_def)
  have ne: "?seeds \<noteq> []" by simp
  from seedDecisionMemory_last_eight [OF hyps, of "\<lambda>i. ''now''"]
  have "decisionMemory (seedDecisionMemory (\<lambda>i. ''now'') runnerWithHistory) =
      (if ?seeds = [] then decisionMemory runnerWithHistory
       else lastN 12 (decisionMemory runnerWithHistory @
              map (\<lambda>(j, d). storedEntry ((\<lambda>i. ''now'') j) (memoryOfDecision d))
                (enumerate 0 ?seeds)))"
    unfolding seeds by (elim conjE)
  then have "decisionMemory (seedDecisionMemory (\<lambda>i. ''now'') runnerWithHistory) =
      lastN 12 (map memoryOfDecision ?seeds)"
    unfolding stored empty using ne by (simp only: if_False append_Nil)
  then have "decisionMemory (seedDecisionMemory (\<lambda>i. ''now'') runnerWithHistory) =
      map memoryOfDecision ?seeds"
    by (simp add: lastN_def)
  with hyps counts show ?thesis by simp
qed

section \<open>The strict decision engine: three attempts\<close>















end
